theory Spec2Isabelle
  imports Complex_Main
begin

section \<open>Data model\<close>

text \<open>
  The posture engine of \<^verbatim>\<open>src/lib/mediapipe-pose.ts\<close> (class
  \<^verbatim>\<open>MediaPipePoseDetector\<close>), its types from \<^verbatim>\<open>types/pose.ts\<close>
  and the change filter of the \<^verbatim>\<open>usePosture\<close> hook.

  JavaScript numbers are modelled as the reals: every comparison, mean and threshold is
  exact, and the values a double has beyond the reals (NaN, the infinities, signed zero)
  and its rounding are outside the model. The milliseconds of \<^verbatim>\<open>Date.now()\<close> are
  integers.
\<close>

text \<open>
  \<^verbatim>\<open>PoseLandmark { x, y, z, visibility? }\<close>. The coordinates are named
  \<open>px\<close>, \<open>py\<close>, \<open>pz\<close>, since a record field is a constant of the theory;
  an absent \<^verbatim>\<open>visibility\<close> is \<open>None\<close>.
\<close>

record PoseLandmark =
  px :: real
  py :: real
  pz :: real
  visibility :: "real option"

type_synonym PoseLandmarks = "PoseLandmark list"

datatype PostureIssueType = slouching | looking_away | looking_down | no_person | good_posture

record CalibrationBaseline =
  slouchAngle :: real
  headTiltAngle :: real
  shoulderAlignment :: real
  shoulderHeight :: real
  headYaw :: real
  headPitch :: real
  timestamp :: int

record PostureAnalysis =
  type :: PostureIssueType
  confidence :: real
  slouchAngle :: real
  headTiltAngle :: real
  shoulderAlignment :: real
  headYaw :: real
  headPitch :: real

text \<open>The private field \<^verbatim>\<open>smoothingBuffer\<close>: one array per metric, oldest value first.\<close>

record SmoothingBuffer =
  slouchAngles :: "real list"
  headTiltAngles :: "real list"
  shoulderAlignments :: "real list"
  shoulderHeights :: "real list"
  headYaws :: "real list"
  headPitches :: "real list"

text \<open>
  The detector's mutable fields. The handle of the external pose model
  (\<^verbatim>\<open>pose\<close>, \<^verbatim>\<open>config\<close>, \<^verbatim>\<open>lastResult\<close>) is not part of the
  posture engine and is left out.
\<close>

record MediaPipePoseDetector =
  isInitialized :: bool
  isProcessing :: bool
  calibrationBaseline :: "CalibrationBaseline option"
  smoothingBuffer :: SmoothingBuffer

text \<open>
  What a call can throw: the \<^verbatim>\<open>TypeError\<close> of reading a property of
  \<^verbatim>\<open>undefined\<close> (a frame too short for the landmark index), and the
  \<^verbatim>\<open>Error\<close> of \<^verbatim>\<open>calibrate\<close> ("Cannot calibrate: Person not clearly
  visible in frame"). A method returns its outcome together with the detector as the call
  left it, so that a throw does not hide what was mutated before it.
\<close>

datatype error = TypeError | PersonNotVisible

section \<open>Constants\<close>

definition NOSE :: nat where "NOSE = 0"
definition LEFT_EYE :: nat where "LEFT_EYE = 2"
definition RIGHT_EYE :: nat where "RIGHT_EYE = 5"
definition LEFT_EAR :: nat where "LEFT_EAR = 7"
definition RIGHT_EAR :: nat where "RIGHT_EAR = 8"
definition LEFT_SHOULDER :: nat where "LEFT_SHOULDER = 11"
definition RIGHT_SHOULDER :: nat where "RIGHT_SHOULDER = 12"

definition SLOUCH_ANGLE_THRESHOLD :: real where "SLOUCH_ANGLE_THRESHOLD = 40"
definition HEAD_TILT_THRESHOLD :: real where "HEAD_TILT_THRESHOLD = 20"
definition HEAD_TURN_THRESHOLD :: real where "HEAD_TURN_THRESHOLD = 30"
definition EYE_VISIBILITY_THRESHOLD :: real where "EYE_VISIBILITY_THRESHOLD = 6 / 10"
definition CONFIDENCE_THRESHOLD :: real where "CONFIDENCE_THRESHOLD = 6 / 10"

definition SMOOTHING_WINDOW_SIZE :: nat where "SMOOTHING_WINDOW_SIZE = 5"
definition DEVIATION_THRESHOLD_MULTIPLIER :: real where "DEVIATION_THRESHOLD_MULTIPLIER = 15 / 10"

section \<open>JavaScript primitives\<close>

text \<open>\<^verbatim>\<open>Math.atan2(y, x)\<close> on the reals: the angle of the point \<open>(x, y)\<close>, in \<open>(-pi, pi]\<close>.\<close>

definition Math_atan2 :: "real \<Rightarrow> real \<Rightarrow> real" where
  "Math_atan2 y x =
     (if 0 < x then arctan (y / x)
      else if x < 0 then (if 0 \<le> y then arctan (y / x) + pi else arctan (y / x) - pi)
      else if 0 < y then pi / 2
      else if y < 0 then - (pi / 2)
      else 0)"

text \<open>\<^verbatim>\<open>landmarks[i]\<close>: \<^verbatim>\<open>undefined\<close> past the end of the array.\<close>

definition landmarkAt :: "PoseLandmarks \<Rightarrow> nat \<Rightarrow> PoseLandmark option" where
  "landmarkAt landmarks i = (if i < length landmarks then Some (landmarks ! i) else None)"

text \<open>\<^verbatim>\<open>(l.visibility || 0)\<close> for a landmark that is there.\<close>

definition visibilityOr0 :: "PoseLandmark \<Rightarrow> real" where
  "visibilityOr0 l = (case visibility l of None \<Rightarrow> 0 | Some v \<Rightarrow> v)"

text \<open>
  A chain \<^verbatim>\<open>(a.visibility || 0) > t && (b.visibility || 0) > t && ...\<close>, read left to
  right: the first landmark at or below the threshold ends the chain with
  \<^verbatim>\<open>false\<close> before the later ones are read, and reading
  \<^verbatim>\<open>.visibility\<close> of \<^verbatim>\<open>undefined\<close> throws.
\<close>

fun allVisibleAbove :: "real \<Rightarrow> PoseLandmark option list \<Rightarrow> error + bool" where
  "allVisibleAbove t [] = Inr True"
| "allVisibleAbove t (None # rest) = Inl TypeError"
| "allVisibleAbove t (Some l # rest) =
     (if t < visibilityOr0 l then allVisibleAbove t rest else Inr False)"

section \<open>Smoothing buffers\<close>

text \<open>
  \<^verbatim>\<open>addToSmoothingBuffer(buffer, newValue)\<close>: push, shift once when the array is
  longer than the window, and return the mean. The array is mutated in place; the model
  returns the mean and the array as the call leaves it.
\<close>

definition addToSmoothingBuffer :: "real list \<Rightarrow> real \<Rightarrow> real \<times> real list" where
  "addToSmoothingBuffer buffer newValue =
     (let pushed = buffer @ [newValue];
          kept = (if SMOOTHING_WINDOW_SIZE < length pushed then tl pushed else pushed);
          sum = foldl (\<lambda>acc val. acc + val) 0 kept
      in (sum / real (length kept), kept))"

text \<open>A test driver: push the values one after the other and collect the returned means.\<close>

fun pushAll :: "real list \<Rightarrow> real list \<Rightarrow> real list" where
  "pushAll buffer [] = []"
| "pushAll buffer (v # vs) =
     (case addToSmoothingBuffer buffer v of (mean, buffer') \<Rightarrow> mean # pushAll buffer' vs)"

definition emptySmoothingBuffer :: SmoothingBuffer where
  "emptySmoothingBuffer =
     \<lparr>slouchAngles = [], headTiltAngles = [], shoulderAlignments = [],
      shoulderHeights = [], headYaws = [], headPitches = []\<rparr>"

section \<open>Geometry calculators\<close>

definition degrees :: "real \<Rightarrow> real" where
  "degrees angleRadians = (angleRadians * 180) / pi"

definition calculateSlouchAngle ::
  "PoseLandmark \<Rightarrow> PoseLandmark \<Rightarrow> PoseLandmark \<Rightarrow> PoseLandmark \<Rightarrow> real" where
  "calculateSlouchAngle leftShoulder rightShoulder leftEar rightEar =
     (let earMidpoint_x = (px leftEar + px rightEar) / 2;
          earMidpoint_y = (py leftEar + py rightEar) / 2;
          shoulderMidpoint_x = (px leftShoulder + px rightShoulder) / 2;
          shoulderMidpoint_y = (py leftShoulder + py rightShoulder) / 2;
          horizontalDistance = \<bar>earMidpoint_x - shoulderMidpoint_x\<bar>;
          verticalDistance = shoulderMidpoint_y - earMidpoint_y;
          angleRadians = Math_atan2 verticalDistance (horizontalDistance + 1 / 100)
      in degrees angleRadians)"

definition calculateHeadTilt :: "PoseLandmark \<Rightarrow> PoseLandmark \<Rightarrow> PoseLandmark \<Rightarrow> real" where
  "calculateHeadTilt nose leftShoulder rightShoulder =
     (let shoulderY = (py leftShoulder + py rightShoulder) / 2;
          headDrop = py nose - shoulderY;
          normalizedDrop = headDrop / (15 / 100);
          angleDegrees = normalizedDrop * 20
      in angleDegrees)"

definition calculateSagittalHeadTilt ::
  "PoseLandmark \<Rightarrow> PoseLandmark \<Rightarrow> PoseLandmark \<Rightarrow> PoseLandmark \<Rightarrow> real" where
  "calculateSagittalHeadTilt leftEye rightEye leftEar rightEar =
     (let eyeMidpoint_y = (py leftEye + py rightEye) / 2;
          eyeMidpoint_z = (pz leftEye + pz rightEye) / 2;
          earMidpoint_y = (py leftEar + py rightEar) / 2;
          earMidpoint_z = (pz leftEar + pz rightEar) / 2;
          dz = \<bar>eyeMidpoint_z - earMidpoint_z\<bar> + 1 / 100;
          dy = eyeMidpoint_y - earMidpoint_y;
          angleRadians = Math_atan2 dy dz
      in degrees angleRadians)"

definition calculateShoulderAlignment :: "PoseLandmark \<Rightarrow> PoseLandmark \<Rightarrow> real" where
  "calculateShoulderAlignment leftShoulder rightShoulder =
     (let heightDifference = py leftShoulder - py rightShoulder;
          horizontalDistance = \<bar>px leftShoulder - px rightShoulder\<bar>;
          angleRadians = Math_atan2 \<bar>heightDifference\<bar> horizontalDistance;
          angleDegrees = degrees angleRadians
      in if 0 < heightDifference then angleDegrees else - angleDegrees)"

definition calculateShoulderHeight :: "PoseLandmark \<Rightarrow> PoseLandmark \<Rightarrow> real" where
  "calculateShoulderHeight leftShoulder rightShoulder =
     (py leftShoulder + py rightShoulder) / 2"

record HeadOrientation =
  yaw :: real
  pitch :: real

text \<open>
  \<^verbatim>\<open>calculateHeadOrientation(landmarks)\<close> reads its five landmarks from the frame
  itself; a missing one throws at the first property read.
\<close>

definition calculateHeadOrientation :: "PoseLandmarks \<Rightarrow> error + HeadOrientation" where
  "calculateHeadOrientation landmarks =
     (case (landmarkAt landmarks NOSE, landmarkAt landmarks LEFT_EYE,
            landmarkAt landmarks RIGHT_EYE, landmarkAt landmarks LEFT_EAR,
            landmarkAt landmarks RIGHT_EAR) of
        (Some nose, Some leftEye, Some rightEye, Some leftEar, Some rightEar) \<Rightarrow>
          (let faceCenterX = (px leftEye + px rightEye + px nose) / 3;
               faceCenterZ = (pz leftEye + pz rightEye + pz nose) / 3;
               earCenterX = (px leftEar + px rightEar) / 2;
               earCenterZ = (pz leftEar + pz rightEar) / 2;
               horizontalOffset = faceCenterX - earCenterX;
               depthDifference = \<bar>faceCenterZ - earCenterZ\<bar>;
               yawRadians = Math_atan2 horizontalOffset (depthDifference + 1 / 100);
               earCenterY = (py leftEar + py rightEar) / 2;
               eyeCenterY = (py leftEye + py rightEye) / 2;
               eyeCenterZ = (pz leftEye + pz rightEye) / 2;
               verticalDifference = eyeCenterY - earCenterY;
               depthForPitch = \<bar>earCenterZ - eyeCenterZ\<bar> + 1 / 100;
               pitchRadians = Math_atan2 verticalDifference depthForPitch
           in Inr \<lparr>yaw = degrees yawRadians, pitch = degrees pitchRadians\<rparr>)
      | _ \<Rightarrow> Inl TypeError)"

record EyeData =
  eyesVisible :: bool
  leftEyeConfidence :: real
  rightEyeConfidence :: real
  averageConfidence :: real

definition analyzeEyeVisibility :: "PoseLandmarks \<Rightarrow> error + EyeData" where
  "analyzeEyeVisibility landmarks =
     (case (landmarkAt landmarks LEFT_EYE, landmarkAt landmarks RIGHT_EYE) of
        (Some leftEye, Some rightEye) \<Rightarrow>
          (let leftEyeConfidence = visibilityOr0 leftEye;
               rightEyeConfidence = visibilityOr0 rightEye;
               averageConfidence = (leftEyeConfidence + rightEyeConfidence) / 2;
               eyesVisible = (EYE_VISIBILITY_THRESHOLD < leftEyeConfidence \<and>
                              EYE_VISIBILITY_THRESHOLD < rightEyeConfidence)
           in Inr \<lparr>eyesVisible = eyesVisible, leftEyeConfidence = leftEyeConfidence,
                    rightEyeConfidence = rightEyeConfidence,
                    averageConfidence = averageConfidence\<rparr>)
      | _ \<Rightarrow> Inl TypeError)"

section \<open>The detector's operations\<close>

definition createNoPersonAnalysis :: PostureAnalysis where
  "createNoPersonAnalysis =
     \<lparr>type = no_person, confidence = 95 / 100, slouchAngle = 0, headTiltAngle = 0,
      shoulderAlignment = 0, headYaw = 0, headPitch = 0\<rparr>"

text \<open>
  The decision chain of \<^verbatim>\<open>analyzePosture\<close> (from the comment "Determine
  posture issue" to the \<^verbatim>\<open>return\<close>): \<^verbatim>\<open>issueType\<close> and
  \<^verbatim>\<open>confidence\<close> start as good posture with 0.9 and are overwritten by the
  first rule that fires. Its inputs are the eye data, the detector's baseline (\<open>None\<close>
  is \<^verbatim>\<open>null\<close>) and the six smoothed metrics, under the names the source
  gives them.
\<close>

definition determinePostureIssue ::
  "EyeData \<Rightarrow> CalibrationBaseline option \<Rightarrow>
   real \<Rightarrow> real \<Rightarrow> real \<Rightarrow> real \<Rightarrow> real \<Rightarrow> real \<Rightarrow> PostureIssueType \<times> real" where
  "determinePostureIssue eyeData calibration =
     (\<lambda>slouchAngle headTiltAngle shoulderAlignment shoulderHeight headYaw headPitch.
       (if \<not> eyesVisible eyeData then
          (if 15 < \<bar>headPitch\<bar> \<or> 15 < headTiltAngle
           then (looking_down, 9 / 10)
           else (looking_away, 9 / 10))
        else case calibration of
          Some baseline \<Rightarrow>
            (let slouchDeviation =
                   \<bar>slouchAngle - CalibrationBaseline.slouchAngle baseline\<bar>;
                 headTiltDeviation =
                   \<bar>headTiltAngle - CalibrationBaseline.headTiltAngle baseline\<bar>;
                 shoulderDeviation =
                   \<bar>shoulderAlignment - CalibrationBaseline.shoulderAlignment baseline\<bar>;
                 shoulderHeightDeviation =
                   \<bar>shoulderHeight - CalibrationBaseline.shoulderHeight baseline\<bar>;
                 yawDeviation = \<bar>headYaw - CalibrationBaseline.headYaw baseline\<bar>;
                 pitchDeviation = \<bar>headPitch - CalibrationBaseline.headPitch baseline\<bar>;
                 slouchThreshold =
                   SLOUCH_ANGLE_THRESHOLD * DEVIATION_THRESHOLD_MULTIPLIER;
                 headTiltThreshold =
                   HEAD_TILT_THRESHOLD * DEVIATION_THRESHOLD_MULTIPLIER;
                 headYawThreshold =
                   HEAD_TURN_THRESHOLD * DEVIATION_THRESHOLD_MULTIPLIER;
                 headPitchThreshold =
                   HEAD_TILT_THRESHOLD * DEVIATION_THRESHOLD_MULTIPLIER;
                 shoulderHeightThreshold = 5 / 100
             in if slouchAngle < 40 \<or> slouchThreshold < slouchDeviation then
                  (slouching,
                   min (95 / 100) (6 / 10 + max (40 - slouchAngle) slouchDeviation / 10))
                else if shoulderHeightThreshold < shoulderHeightDeviation then
                  (slouching, min (95 / 100) (6 / 10 + shoulderHeightDeviation * 10))
                else if headYawThreshold < yawDeviation then
                  (looking_away, min (95 / 100) (6 / 10 + yawDeviation / 60))
                else if headPitchThreshold < pitchDeviation
                        \<or> headTiltThreshold < headTiltDeviation then
                  (looking_down,
                   min (95 / 100) (6 / 10 + max pitchDeviation headTiltDeviation / 40))
                else (good_posture, 9 / 10))
        | None \<Rightarrow>
            (if slouchAngle < SLOUCH_ANGLE_THRESHOLD then
               (slouching,
                min (95 / 100) (6 / 10 + (SLOUCH_ANGLE_THRESHOLD - slouchAngle) / 10))
             else if HEAD_TURN_THRESHOLD < \<bar>headYaw\<bar> then
               (looking_away, min (95 / 100) (6 / 10 + \<bar>headYaw\<bar> / 60))
             else if HEAD_TILT_THRESHOLD < headTiltAngle then
               (looking_down, min (95 / 100) (6 / 10 + headTiltAngle / 40))
             else (good_posture, 9 / 10))))"

text \<open>
  \<^verbatim>\<open>analyzePosture(landmarks)\<close>. The seven landmarks are looked up first (a lookup
  past the end gives \<^verbatim>\<open>undefined\<close> and does not throw); the visibility gate
  reads nose, shoulders and ears in this order; the calculators and
  \<^verbatim>\<open>analyzeEyeVisibility\<close> read properties of their landmarks, so a missing one
  throws before any buffer is touched; the six pushes follow, then the decision chain
  \<open>determinePostureIssue\<close> on the smoothed values.
\<close>

definition analyzePosture ::
  "MediaPipePoseDetector \<Rightarrow> PoseLandmarks \<Rightarrow> (error + PostureAnalysis) \<times> MediaPipePoseDetector" where
  "analyzePosture this landmarks =
     (case allVisibleAbove CONFIDENCE_THRESHOLD
             [landmarkAt landmarks NOSE,
              landmarkAt landmarks LEFT_SHOULDER, landmarkAt landmarks RIGHT_SHOULDER,
              landmarkAt landmarks LEFT_EAR, landmarkAt landmarks RIGHT_EAR] of
        Inl e \<Rightarrow> (Inl e, this)
      | Inr hasGoodVisibility \<Rightarrow>
          if \<not> hasGoodVisibility then (Inr createNoPersonAnalysis, this)
          else
            (case (analyzeEyeVisibility landmarks, calculateHeadOrientation landmarks,
                   landmarkAt landmarks NOSE,
                   landmarkAt landmarks LEFT_SHOULDER, landmarkAt landmarks RIGHT_SHOULDER,
                   landmarkAt landmarks LEFT_EAR, landmarkAt landmarks RIGHT_EAR,
                   landmarkAt landmarks LEFT_EYE, landmarkAt landmarks RIGHT_EYE) of
               (Inr eyeData, Inr rawHeadOrientation, Some nose,
                Some leftShoulder, Some rightShoulder, Some leftEar, Some rightEar,
                Some leftEye, Some rightEye) \<Rightarrow>
                 (let rawSlouchAngle =
                        calculateSlouchAngle leftShoulder rightShoulder leftEar rightEar;
                      rawHeadTiltAngle =
                        (if eyesVisible eyeData
                         then calculateSagittalHeadTilt leftEye rightEye leftEar rightEar
                         else calculateHeadTilt nose leftShoulder rightShoulder);
                      rawShoulderAlignment = calculateShoulderAlignment leftShoulder rightShoulder;
                      rawShoulderHeight = calculateShoulderHeight leftShoulder rightShoulder;
                      buffer = smoothingBuffer this;
                      (slouchAngle, slouchAngles') =
                        addToSmoothingBuffer (slouchAngles buffer) rawSlouchAngle;
                      (headTiltAngle, headTiltAngles') =
                        addToSmoothingBuffer (headTiltAngles buffer) rawHeadTiltAngle;
                      (shoulderAlignment, shoulderAlignments') =
                        addToSmoothingBuffer (shoulderAlignments buffer) rawShoulderAlignment;
                      (shoulderHeight, shoulderHeights') =
                        addToSmoothingBuffer (shoulderHeights buffer) rawShoulderHeight;
                      (headYaw, headYaws') =
                        addToSmoothingBuffer (headYaws buffer) (yaw rawHeadOrientation);
                      (headPitch, headPitches') =
                        addToSmoothingBuffer (headPitches buffer) (pitch rawHeadOrientation);
                      (issueType, confidence) =
                        determinePostureIssue eyeData (calibrationBaseline this)
                          slouchAngle headTiltAngle shoulderAlignment shoulderHeight
                          headYaw headPitch
                  in (Inr \<lparr>type = issueType, confidence = confidence,
                            slouchAngle = slouchAngle, headTiltAngle = headTiltAngle,
                            shoulderAlignment = shoulderAlignment,
                            headYaw = headYaw, headPitch = headPitch\<rparr>,
                      this\<lparr>smoothingBuffer :=
                        \<lparr>slouchAngles = slouchAngles', headTiltAngles = headTiltAngles',
                         shoulderAlignments = shoulderAlignments',
                         shoulderHeights = shoulderHeights',
                         headYaws = headYaws', headPitches = headPitches'\<rparr>\<rparr>))
             | _ \<Rightarrow> (Inl TypeError, this)))"

text \<open>
  The posture of a detection, \<^verbatim>\<open>landmarks ? this.analyzePosture(landmarks) :
  this.createNoPersonAnalysis()\<close> in \<^verbatim>\<open>detectPose\<close>: \<open>None\<close> is the
  \<^verbatim>\<open>null\<close> of a frame in which the model found nobody.
\<close>

definition detectPose_posture ::
  "MediaPipePoseDetector \<Rightarrow> PoseLandmarks option \<Rightarrow> (error + PostureAnalysis) \<times> MediaPipePoseDetector" where
  "detectPose_posture this landmarks =
     (case landmarks of
        Some present \<Rightarrow> analyzePosture this present
      | None \<Rightarrow> (Inr createNoPersonAnalysis, this))"

text \<open>
  \<^verbatim>\<open>calibrate(landmarks)\<close>; \<open>now\<close> is what \<^verbatim>\<open>Date.now()\<close> returns when the
  baseline is stored.
\<close>

definition calibrate ::
  "MediaPipePoseDetector \<Rightarrow> int \<Rightarrow> PoseLandmarks \<Rightarrow> (error + unit) \<times> MediaPipePoseDetector" where
  "calibrate this now landmarks =
     (case allVisibleAbove CONFIDENCE_THRESHOLD
             [landmarkAt landmarks NOSE,
              landmarkAt landmarks LEFT_SHOULDER, landmarkAt landmarks RIGHT_SHOULDER,
              landmarkAt landmarks LEFT_EAR, landmarkAt landmarks RIGHT_EAR,
              landmarkAt landmarks LEFT_EYE, landmarkAt landmarks RIGHT_EYE] of
        Inl e \<Rightarrow> (Inl e, this)
      | Inr hasGoodVisibility \<Rightarrow>
          if \<not> hasGoodVisibility then (Inl PersonNotVisible, this)
          else
            (case (analyzeEyeVisibility landmarks, calculateHeadOrientation landmarks,
                   landmarkAt landmarks LEFT_SHOULDER, landmarkAt landmarks RIGHT_SHOULDER,
                   landmarkAt landmarks LEFT_EAR, landmarkAt landmarks RIGHT_EAR,
                   landmarkAt landmarks LEFT_EYE, landmarkAt landmarks RIGHT_EYE) of
               (Inr eyeData, Inr headOrientation,
                Some leftShoulder, Some rightShoulder, Some leftEar, Some rightEar,
                Some leftEye, Some rightEye) \<Rightarrow>
                 (let slouchAngle =
                        calculateSlouchAngle leftShoulder rightShoulder leftEar rightEar;
                      headTiltAngle =
                        calculateSagittalHeadTilt leftEye rightEye leftEar rightEar;
                      shoulderAlignment = calculateShoulderAlignment leftShoulder rightShoulder;
                      shoulderHeight = calculateShoulderHeight leftShoulder rightShoulder
                  in (Inr (),
                      this\<lparr>calibrationBaseline :=
                             Some \<lparr>CalibrationBaseline.slouchAngle = slouchAngle,
                                   CalibrationBaseline.headTiltAngle = headTiltAngle,
                                   CalibrationBaseline.shoulderAlignment = shoulderAlignment,
                                   CalibrationBaseline.shoulderHeight = shoulderHeight,
                                   CalibrationBaseline.headYaw = yaw headOrientation,
                                   CalibrationBaseline.headPitch = pitch headOrientation,
                                   CalibrationBaseline.timestamp = now\<rparr>,
                           smoothingBuffer := emptySmoothingBuffer\<rparr>))
             | _ \<Rightarrow> (Inl TypeError, this)))"

definition getCalibration :: "MediaPipePoseDetector \<Rightarrow> CalibrationBaseline option" where
  "getCalibration this = calibrationBaseline this"

definition clearCalibration :: "MediaPipePoseDetector \<Rightarrow> MediaPipePoseDetector" where
  "clearCalibration this =
     this\<lparr>calibrationBaseline := None, smoothingBuffer := emptySmoothingBuffer\<rparr>"

section \<open>The change filter of the detection loop\<close>

text \<open>
  From the \<^verbatim>\<open>usePosture\<close> hook: \<^verbatim>\<open>hasSignificantChange\<close> and the part
  of \<^verbatim>\<open>runDetection\<close> that decides whether a detection result reaches the
  consumer (\<^verbatim>\<open>setResult\<close>).
\<close>

record PoseDetectionResult =
  landmarks :: "PoseLandmarks option"
  posture :: PostureAnalysis
  timestamp :: real

definition ANGLE_CHANGE_THRESHOLD :: real where "ANGLE_CHANGE_THRESHOLD = 2"
definition CONFIDENCE_CHANGE_THRESHOLD :: real where "CONFIDENCE_CHANGE_THRESHOLD = 1 / 10"
definition MAX_UPDATE_INTERVAL :: int where "MAX_UPDATE_INTERVAL = 1000"

definition hasSignificantChange :: "PoseDetectionResult \<Rightarrow> PoseDetectionResult option \<Rightarrow> bool" where
  "hasSignificantChange current previous =
     (case previous of
        None \<Rightarrow> True
      | Some prev \<Rightarrow>
          if type (posture current) \<noteq> type (posture prev) then True
          else
            (let currPosture = posture current;
                 prevPosture = posture prev;
                 slouchDiff = \<bar>slouchAngle currPosture - slouchAngle prevPosture\<bar>;
                 headTiltDiff = \<bar>headTiltAngle currPosture - headTiltAngle prevPosture\<bar>;
                 shoulderDiff = \<bar>shoulderAlignment currPosture - shoulderAlignment prevPosture\<bar>;
                 headYawDiff = \<bar>headYaw currPosture - headYaw prevPosture\<bar>;
                 headPitchDiff = \<bar>headPitch currPosture - headPitch prevPosture\<bar>;
                 confidenceDiff = \<bar>confidence currPosture - confidence prevPosture\<bar>
             in ANGLE_CHANGE_THRESHOLD \<le> slouchDiff \<or>
                ANGLE_CHANGE_THRESHOLD \<le> headTiltDiff \<or>
                ANGLE_CHANGE_THRESHOLD \<le> shoulderDiff \<or>
                ANGLE_CHANGE_THRESHOLD \<le> headYawDiff \<or>
                ANGLE_CHANGE_THRESHOLD \<le> headPitchDiff \<or>
                CONFIDENCE_CHANGE_THRESHOLD \<le> confidenceDiff))"

text \<open>
  The refs and state of the hook that \<^verbatim>\<open>runDetection\<close> reads and writes.
  \<open>detectorRef\<close> and \<open>videoElementRef\<close> say whether the ref holds an object;
  \<open>result\<close> is the React state the consumer renders.
\<close>

record UsePosture =
  detectorRef :: bool
  videoElementRef :: bool
  isMountedRef :: bool
  isCalibratedRef :: bool
  lastUpdateRef :: "PoseDetectionResult option"
  lastUpdateTimeRef :: int
  result :: "PoseDetectionResult option"

text \<open>
  \<^verbatim>\<open>runDetection\<close>, for a call in which \<^verbatim>\<open>detectPose\<close> returned
  \<open>detectionResult\<close>; \<open>now\<close> is \<^verbatim>\<open>Date.now()\<close>. The boolean says whether
  \<^verbatim>\<open>setResult(detectionResult)\<close> was called.
\<close>

definition runDetection :: "UsePosture \<Rightarrow> PoseDetectionResult \<Rightarrow> int \<Rightarrow> bool \<times> UsePosture" where
  "runDetection hook detectionResult now =
     (if \<not> detectorRef hook \<or> \<not> videoElementRef hook \<or> \<not> isMountedRef hook then (False, hook)
      else if isMountedRef hook then
        (if isCalibratedRef hook then
           (let timeSinceLastUpdate = now - lastUpdateTimeRef hook;
                shouldUpdate =
                  (hasSignificantChange detectionResult (lastUpdateRef hook) \<or>
                   MAX_UPDATE_INTERVAL \<le> timeSinceLastUpdate)
            in if shouldUpdate then
                 (True, hook\<lparr>lastUpdateRef := Some detectionResult,
                             lastUpdateTimeRef := now,
                             result := Some detectionResult\<rparr>)
               else (False, hook))
         else (False, hook))
      else (False, hook))"

section \<open>Example inputs\<close>

text \<open>
  Concrete detectors and frames for the witnesses and counterexamples below. An example
  frame has 33 landmarks: ears and the landmarks that are not read at the origin, all
  with visibility 1; nose and eyes at horizontal position \<open>faceX\<close>; the shoulders at
  height \<open>shoulderY\<close> (larger is lower on screen).
\<close>

definition newDetector :: MediaPipePoseDetector where
  "newDetector =
     \<lparr>isInitialized = False, isProcessing = False, calibrationBaseline = None,
      smoothingBuffer = emptySmoothingBuffer\<rparr>"

text \<open>
  The detector after one upright frame (ears straight above the shoulders, slouch angle
  45 degrees) and no calibration: each buffer holds that frame's value.
\<close>

definition exampleWarmDetector :: MediaPipePoseDetector where
  "exampleWarmDetector =
     newDetector\<lparr>smoothingBuffer :=
       \<lparr>slouchAngles = [45], headTiltAngles = [0], shoulderAlignments = [0],
        shoulderHeights = [1 / 100], headYaws = [0], headPitches = [0]\<rparr>\<rparr>"

text \<open>
  The same detector, calibrated on the upright frame before that frame was analysed.
\<close>

definition exampleCalibratedDetector :: MediaPipePoseDetector where
  "exampleCalibratedDetector =
     exampleWarmDetector\<lparr>calibrationBaseline :=
       Some \<lparr>CalibrationBaseline.slouchAngle = 45, CalibrationBaseline.headTiltAngle = 0,
             CalibrationBaseline.shoulderAlignment = 0,
             CalibrationBaseline.shoulderHeight = 1 / 100,
             CalibrationBaseline.headYaw = 0, CalibrationBaseline.headPitch = 0,
             CalibrationBaseline.timestamp = 1000\<rparr>\<rparr>"

definition exampleLandmark :: "real \<Rightarrow> real \<Rightarrow> real option \<Rightarrow> PoseLandmark" where
  "exampleLandmark x y v = \<lparr>px = x, py = y, pz = 0, visibility = v\<rparr>"

definition exampleFrame :: "real option \<Rightarrow> real option \<Rightarrow> real \<Rightarrow> real \<Rightarrow> PoseLandmarks" where
  "exampleFrame noseVisibility eyeVisibility faceX shoulderY =
     (replicate 33 (exampleLandmark 0 0 (Some 1)))
       [NOSE := exampleLandmark faceX 0 noseVisibility,
        LEFT_EYE := exampleLandmark faceX 0 eyeVisibility,
        RIGHT_EYE := exampleLandmark faceX 0 eyeVisibility,
        LEFT_SHOULDER := exampleLandmark 0 shoulderY (Some 1),
        RIGHT_SHOULDER := exampleLandmark 0 shoulderY (Some 1)]"

text \<open>
  A detection result with the given type and slouch angle (confidence 0.9, the other
  angles 0), and a mounted hook with detector and video attached.
\<close>

definition examplePosture :: "PostureIssueType \<Rightarrow> real \<Rightarrow> PoseDetectionResult" where
  "examplePosture issue angle =
     \<lparr>landmarks = None,
      posture = \<lparr>type = issue, confidence = 9 / 10, slouchAngle = angle, headTiltAngle = 0,
                 shoulderAlignment = 0, headYaw = 0, headPitch = 0\<rparr>,
      timestamp = 0\<rparr>"

definition exampleHook :: "bool \<Rightarrow> PoseDetectionResult option \<Rightarrow> int \<Rightarrow> UsePosture" where
  "exampleHook calibrated lastUpdate lastUpdateTime =
     \<lparr>detectorRef = True, videoElementRef = True, isMountedRef = True,
      isCalibratedRef = calibrated, lastUpdateRef = lastUpdate,
      lastUpdateTimeRef = lastUpdateTime, result = None\<rparr>"

section \<open>Auxiliary facts\<close>

lemmas landmark_indices =
  NOSE_def LEFT_EYE_def RIGHT_EYE_def LEFT_EAR_def RIGHT_EAR_def
  LEFT_SHOULDER_def RIGHT_SHOULDER_def

lemmas posture_thresholds =
  SLOUCH_ANGLE_THRESHOLD_def HEAD_TILT_THRESHOLD_def HEAD_TURN_THRESHOLD_def
  EYE_VISIBILITY_THRESHOLD_def CONFIDENCE_THRESHOLD_def DEVIATION_THRESHOLD_MULTIPLIER_def

subsection \<open>Frames of 33 landmarks\<close>

lemma landmarkAt_frame:
  "length frame = 33 \<Longrightarrow> i < 33 \<Longrightarrow> landmarkAt frame i = Some (frame ! i)"
  by (simp add: landmarkAt_def)

subsection \<open>The smoothing buffer\<close>

lemma foldl_plus_sum_list: "foldl (\<lambda>acc val. acc + val) s xs = s + sum_list (xs :: real list)"
  by (induction xs arbitrary: s) simp_all

lemma addToSmoothingBuffer_kept:
  "snd (addToSmoothingBuffer buffer v) =
     (if 5 \<le> length buffer then tl buffer @ [v] else buffer @ [v])"
proof (cases buffer)
  case Nil
  then show ?thesis
    by (simp add: addToSmoothingBuffer_def SMOOTHING_WINDOW_SIZE_def)
next
  case (Cons b bs)
  then show ?thesis
    by (auto simp add: addToSmoothingBuffer_def SMOOTHING_WINDOW_SIZE_def Let_def)
qed

lemma addToSmoothingBuffer_mean:
  "fst (addToSmoothingBuffer buffer v) =
     sum_list (snd (addToSmoothingBuffer buffer v)) /
       real (length (snd (addToSmoothingBuffer buffer v)))"
  by (simp add: addToSmoothingBuffer_def Let_def foldl_plus_sum_list)

text \<open>The invariant of the data model: a buffer never grows beyond the window.\<close>

lemma addToSmoothingBuffer_length:
  "length buffer \<le> 5 \<Longrightarrow> length (snd (addToSmoothingBuffer buffer v)) \<le> 5"
  by (simp add: addToSmoothingBuffer_kept)

lemma addToSmoothingBuffer_empty: "addToSmoothingBuffer [] v = (v, [v])"
  by (simp add: addToSmoothingBuffer_def SMOOTHING_WINDOW_SIZE_def)

subsection \<open>Evaluating the example frames\<close>

lemma length_exampleFrame: "length (exampleFrame nv ev fx sy) = 33"
  by (simp add: exampleFrame_def)

lemma exampleFrame_nth:
  "exampleFrame nv ev fx sy ! NOSE = exampleLandmark fx 0 nv"
  "exampleFrame nv ev fx sy ! LEFT_EYE = exampleLandmark fx 0 ev"
  "exampleFrame nv ev fx sy ! RIGHT_EYE = exampleLandmark fx 0 ev"
  "exampleFrame nv ev fx sy ! LEFT_EAR = exampleLandmark 0 0 (Some 1)"
  "exampleFrame nv ev fx sy ! RIGHT_EAR = exampleLandmark 0 0 (Some 1)"
  "exampleFrame nv ev fx sy ! LEFT_SHOULDER = exampleLandmark 0 sy (Some 1)"
  "exampleFrame nv ev fx sy ! RIGHT_SHOULDER = exampleLandmark 0 sy (Some 1)"
  by (simp_all add: exampleFrame_def landmark_indices)

lemma landmarkAt_exampleFrame:
  "landmarkAt (exampleFrame nv ev fx sy) NOSE = Some (exampleLandmark fx 0 nv)"
  "landmarkAt (exampleFrame nv ev fx sy) LEFT_EYE = Some (exampleLandmark fx 0 ev)"
  "landmarkAt (exampleFrame nv ev fx sy) RIGHT_EYE = Some (exampleLandmark fx 0 ev)"
  "landmarkAt (exampleFrame nv ev fx sy) LEFT_EAR = Some (exampleLandmark 0 0 (Some 1))"
  "landmarkAt (exampleFrame nv ev fx sy) RIGHT_EAR = Some (exampleLandmark 0 0 (Some 1))"
  "landmarkAt (exampleFrame nv ev fx sy) LEFT_SHOULDER = Some (exampleLandmark 0 sy (Some 1))"
  "landmarkAt (exampleFrame nv ev fx sy) RIGHT_SHOULDER = Some (exampleLandmark 0 sy (Some 1))"
  by (simp_all add: landmarkAt_def exampleFrame_def landmark_indices)

lemma visibilityOr0_exampleLandmark:
  "visibilityOr0 (exampleLandmark x y (Some v)) = v"
  "visibilityOr0 (exampleLandmark x y None) = 0"
  by (simp_all add: visibilityOr0_def exampleLandmark_def)

lemma Math_atan2_hundredth: "Math_atan2 y (1 / 100) = arctan (100 * y)"
  by (simp add: Math_atan2_def mult.commute)

lemma degrees_simps:
  "degrees 0 = 0" "degrees (pi / 4) = 45" "degrees (c * pi / 36) = 5 * c"
  by (simp_all add: degrees_def)

lemma example_slouch:
  "calculateSlouchAngle (exampleLandmark 0 sy v1) (exampleLandmark 0 sy v2)
     (exampleLandmark 0 0 v3) (exampleLandmark 0 0 v4) = degrees (arctan (100 * sy))"
  by (simp add: calculateSlouchAngle_def exampleLandmark_def Math_atan2_hundredth)

lemma example_sagittal:
  "calculateSagittalHeadTilt (exampleLandmark x1 0 v1) (exampleLandmark x2 0 v2)
     (exampleLandmark 0 0 v3) (exampleLandmark 0 0 v4) = 0"
  by (simp add: calculateSagittalHeadTilt_def exampleLandmark_def Math_atan2_hundredth
      degrees_def)

lemma example_headTilt:
  "calculateHeadTilt (exampleLandmark x1 0 v1) (exampleLandmark 0 sy v2)
     (exampleLandmark 0 sy v3) = - (400 * sy / 3)"
  by (simp add: calculateHeadTilt_def exampleLandmark_def)

lemma example_alignment:
  "calculateShoulderAlignment (exampleLandmark 0 sy v2) (exampleLandmark 0 sy v3) = 0"
  by (simp add: calculateShoulderAlignment_def exampleLandmark_def Math_atan2_def degrees_def)

lemma example_height:
  "calculateShoulderHeight (exampleLandmark 0 sy v2) (exampleLandmark 0 sy v3) = sy"
  by (simp add: calculateShoulderHeight_def exampleLandmark_def)

lemma example_orientation:
  "calculateHeadOrientation (exampleFrame nv ev fx sy) =
     Inr \<lparr>yaw = degrees (arctan (100 * fx)), pitch = 0\<rparr>"
  by (simp add: calculateHeadOrientation_def landmarkAt_exampleFrame exampleLandmark_def
      Math_atan2_hundredth degrees_def)

lemma example_eyes:
  "analyzeEyeVisibility (exampleFrame nv ev fx sy) =
     Inr \<lparr>eyesVisible = (6 / 10 < visibilityOr0 (exampleLandmark fx 0 ev)),
          leftEyeConfidence = visibilityOr0 (exampleLandmark fx 0 ev),
          rightEyeConfidence = visibilityOr0 (exampleLandmark fx 0 ev),
          averageConfidence = visibilityOr0 (exampleLandmark fx 0 ev)\<rparr>"
  by (simp add: analyzeEyeVisibility_def landmarkAt_exampleFrame EYE_VISIBILITY_THRESHOLD_def
      Let_def)

lemmas example_eval =
  landmarkAt_exampleFrame visibilityOr0_exampleLandmark example_slouch example_sagittal
  example_headTilt example_alignment example_height example_orientation example_eyes
  CONFIDENCE_THRESHOLD_def SLOUCH_ANGLE_THRESHOLD_def HEAD_TURN_THRESHOLD_def
  HEAD_TILT_THRESHOLD_def DEVIATION_THRESHOLD_MULTIPLIER_def determinePostureIssue_def
  addToSmoothingBuffer_def SMOOTHING_WINDOW_SIZE_def degrees_simps arctan_one

text \<open>A shoulder height or face offset of \<open>tan \<theta> / 100\<close> gives the angle \<open>\<theta>\<close>.\<close>

lemma example_angle:
  assumes "- 18 < c" "c < 18"
  shows "degrees (arctan (100 * (tan (c * pi / 36) / 100))) = 5 * c"
proof -
  have "(- 18) * (pi / 36) < c * (pi / 36)" "c * (pi / 36) < 18 * (pi / 36)"
    using assms by (intro mult_strict_right_mono; simp)+
  then have "- (pi / 2) < c * pi / 36" "c * pi / 36 < pi / 2"
    by simp_all
  then have inv: "arctan (tan (c * pi / 36)) = c * pi / 36"
    by (rule arctan_tan)
  have cancel: "100 * (tan (c * pi / 36) / 100) = tan (c * pi / 36)"
    by simp
  show ?thesis
    by (simp only: cancel inv degrees_simps)
qed

lemma example_angle_35: "degrees (arctan (tan (7 * pi / 36))) = 35"
  using example_angle [of 7] by simp

lemma example_angle_50: "degrees (arctan (tan (5 * pi / 18))) = 50"
  using example_angle [of 10] by simp

text \<open>The warm example detector is what one upright frame makes of a new detector.\<close>

lemma exampleWarmDetector_reached:
  "analyzePosture newDetector (exampleFrame (Some 1) (Some 1) 0 (1 / 100)) =
    (Inr \<lparr>type = good_posture, confidence = 9 / 10, slouchAngle = 45, headTiltAngle = 0,
          shoulderAlignment = 0, headYaw = 0, headPitch = 0\<rparr>,
     exampleWarmDetector)"
  by (simp add: analyzePosture_def example_eval newDetector_def exampleWarmDetector_def
      emptySmoothingBuffer_def)

text \<open>
  The calibrated example detector is reached from a new one by calibrating on the upright
  frame and analysing that frame once.
\<close>

lemma exampleCalibratedDetector_reached:
  "calibrate newDetector 1000 (exampleFrame (Some 1) (Some 1) 0 (1 / 100)) =
     (Inr (), newDetector\<lparr>calibrationBaseline := calibrationBaseline exampleCalibratedDetector\<rparr>)"
  "analyzePosture (newDetector\<lparr>calibrationBaseline := calibrationBaseline exampleCalibratedDetector\<rparr>)
     (exampleFrame (Some 1) (Some 1) 0 (1 / 100)) =
    (Inr \<lparr>type = good_posture, confidence = 9 / 10, slouchAngle = 45, headTiltAngle = 0,
          shoulderAlignment = 0, headYaw = 0, headPitch = 0\<rparr>,
     exampleCalibratedDetector)"
  by (simp_all add: calibrate_def analyzePosture_def example_eval newDetector_def
      exampleWarmDetector_def exampleCalibratedDetector_def emptySmoothingBuffer_def Let_def)

subsection \<open>The decision chain\<close>

text \<open>The chain \<open>determinePostureIssue\<close> rule by rule, on arbitrary smoothed metrics.\<close>

lemma determinePostureIssue_eyes_hidden:
  "\<not> eyesVisible eyeData \<Longrightarrow>
   determinePostureIssue eyeData calibration s t a h y p =
     (if 15 < \<bar>p\<bar> \<or> 15 < t then looking_down else looking_away, 9 / 10)"
  by (simp add: determinePostureIssue_def)

lemma determinePostureIssue_fallback:
  assumes "eyesVisible eyeData"
  shows "determinePostureIssue eyeData None s t a h y p =
     (if s < 40 then (slouching, min (95 / 100) (6 / 10 + (40 - s) / 10))
      else if 30 < \<bar>y\<bar> then (looking_away, min (95 / 100) (6 / 10 + \<bar>y\<bar> / 60))
      else if 20 < t then (looking_down, min (95 / 100) (6 / 10 + t / 40))
      else (good_posture, 9 / 10))"
  using assms by (simp add: determinePostureIssue_def posture_thresholds)

lemma determinePostureIssue_baseline:
  assumes "eyesVisible eyeData"
  shows "determinePostureIssue eyeData (Some baseline) s t a h y p =
     (if s < 40 \<or> 60 < \<bar>s - CalibrationBaseline.slouchAngle baseline\<bar> then
        (slouching,
         min (95 / 100)
           (6 / 10 + max (40 - s) \<bar>s - CalibrationBaseline.slouchAngle baseline\<bar> / 10))
      else if 5 / 100 < \<bar>h - CalibrationBaseline.shoulderHeight baseline\<bar> then
        (slouching,
         min (95 / 100) (6 / 10 + \<bar>h - CalibrationBaseline.shoulderHeight baseline\<bar> * 10))
      else if 45 < \<bar>y - CalibrationBaseline.headYaw baseline\<bar> then
        (looking_away,
         min (95 / 100) (6 / 10 + \<bar>y - CalibrationBaseline.headYaw baseline\<bar> / 60))
      else if 30 < \<bar>p - CalibrationBaseline.headPitch baseline\<bar>
              \<or> 30 < \<bar>t - CalibrationBaseline.headTiltAngle baseline\<bar> then
        (looking_down,
         min (95 / 100)
           (6 / 10 + max \<bar>p - CalibrationBaseline.headPitch baseline\<bar>
                        \<bar>t - CalibrationBaseline.headTiltAngle baseline\<bar> / 40))
      else (good_posture, 9 / 10))"
  using assms by (simp add: determinePostureIssue_def posture_thresholds Let_def)

lemma capped_confidence:
  "0 \<le> u \<Longrightarrow> 6 / 10 \<le> min (95 / 100) (6 / 10 + u) \<and> min (95 / 100) (6 / 10 + u) \<le> (95 / 100 :: real)"
  by (simp add: min_def)

lemma determinePostureIssue_capped:
  "\<exists>u\<ge>0. snd (determinePostureIssue eyeData calibration s t a h y p) = min (95 / 100) (6 / 10 + u)"
proof -
  show ?thesis
  proof (cases "eyesVisible eyeData")
    case False
    show ?thesis
      unfolding determinePostureIssue_eyes_hidden [OF False]
      by (intro exI [of _ "3 / 10"]) simp
  next
    case True
    show ?thesis
    proof (cases calibration)
      case None
      consider "s < 40" | "\<not> s < 40" "30 < \<bar>y\<bar>" | "\<not> s < 40" "\<not> 30 < \<bar>y\<bar>" "20 < t"
        | "\<not> s < 40" "\<not> 30 < \<bar>y\<bar>" "\<not> 20 < t"
        by blast
      then show ?thesis
      proof cases
        case 1
        then show ?thesis
          unfolding None determinePostureIssue_fallback [OF True]
          by (intro exI [of _ "(40 - s) / 10"]) simp
      next
        case 2
        then show ?thesis
          unfolding None determinePostureIssue_fallback [OF True]
          by (intro exI [of _ "\<bar>y\<bar> / 60"]) simp
      next
        case 3
        then show ?thesis
          unfolding None determinePostureIssue_fallback [OF True]
          by (intro exI [of _ "t / 40"]) simp
      next
        case 4
        then show ?thesis
          unfolding None determinePostureIssue_fallback [OF True]
          by (intro exI [of _ "3 / 10"]) simp
      qed
    next
      case (Some baseline)
      let ?sd = "\<bar>s - CalibrationBaseline.slouchAngle baseline\<bar>"
      let ?hd = "\<bar>h - CalibrationBaseline.shoulderHeight baseline\<bar>"
      let ?yd = "\<bar>y - CalibrationBaseline.headYaw baseline\<bar>"
      let ?pd = "\<bar>p - CalibrationBaseline.headPitch baseline\<bar>"
      let ?td = "\<bar>t - CalibrationBaseline.headTiltAngle baseline\<bar>"
      consider (a) "s < 40 \<or> 60 < ?sd"
        | (b) "\<not> (s < 40 \<or> 60 < ?sd)" "5 / 100 < ?hd"
        | (c) "\<not> (s < 40 \<or> 60 < ?sd)" "\<not> 5 / 100 < ?hd" "45 < ?yd"
        | (d) "\<not> (s < 40 \<or> 60 < ?sd)" "\<not> 5 / 100 < ?hd" "\<not> 45 < ?yd" "30 < ?pd \<or> 30 < ?td"
        | (e) "\<not> (s < 40 \<or> 60 < ?sd)" "\<not> 5 / 100 < ?hd" "\<not> 45 < ?yd" "\<not> (30 < ?pd \<or> 30 < ?td)"
        by blast
      then show ?thesis
      proof cases
        case a
        have "0 \<le> max (40 - s) ?sd / 10" by simp
        with a show ?thesis
          unfolding Some determinePostureIssue_baseline [OF True]
          by (intro exI [of _ "max (40 - s) ?sd / 10"]) (simp only: if_True snd_conv simp_thms)
      next
        case b
        have "0 \<le> ?hd * 10" by simp
        with b show ?thesis
          unfolding Some determinePostureIssue_baseline [OF True]
          by (intro exI [of _ "?hd * 10"]) (simp only: if_True if_False snd_conv simp_thms)
      next
        case c
        have "0 \<le> ?yd / 60" by simp
        with c show ?thesis
          unfolding Some determinePostureIssue_baseline [OF True]
          by (intro exI [of _ "?yd / 60"]) (simp only: if_True if_False snd_conv simp_thms)
      next
        case d
        have "0 \<le> max ?pd ?td / 40" by simp
        with d show ?thesis
          unfolding Some determinePostureIssue_baseline [OF True]
          by (intro exI [of _ "max ?pd ?td / 40"]) (simp only: if_True if_False snd_conv simp_thms)
      next
        case e
        then show ?thesis
          unfolding Some determinePostureIssue_baseline [OF True]
          by (intro exI [of _ "3 / 10"]) simp
      qed
    qed
  qed
qed

lemma determinePostureIssue_confidence:
  "6 / 10 \<le> snd (determinePostureIssue eyeData calibration s t a h y p) \<and>
   snd (determinePostureIssue eyeData calibration s t a h y p) \<le> 95 / 100"
proof -
  obtain u where "0 \<le> u"
    and "snd (determinePostureIssue eyeData calibration s t a h y p) = min (95 / 100) (6 / 10 + u)"
    using determinePostureIssue_capped by blast
  then show ?thesis
    using capped_confidence [of u] by presburger
qed

lemma determinePostureIssue_type_confidence:
  "fst (determinePostureIssue eyeData calibration s t a h y p) \<noteq> no_person \<and>
   (fst (determinePostureIssue eyeData calibration s t a h y p) = good_posture \<longrightarrow>
    snd (determinePostureIssue eyeData calibration s t a h y p) = 9 / 10)"
proof (cases "eyesVisible eyeData")
  case False
  then show ?thesis
    by (simp add: determinePostureIssue_eyes_hidden)
next
  case True
  show ?thesis
  proof (cases calibration)
    case None
    show ?thesis
      unfolding None determinePostureIssue_fallback [OF True]
      by (simp split: if_split)
  next
    case (Some baseline)
    show ?thesis
      unfolding Some determinePostureIssue_baseline [OF True]
      by (simp split: if_split)
  qed
qed

subsection \<open>The analysis of a frame of 33 landmarks\<close>

text \<open>
  When the visibility gate passes, the analysis returns the verdict of the decision chain
  on the six smoothed metrics, and changes nothing of the detector but the buffers. When
  it does not pass, the analysis returns the no-person result and changes nothing.
\<close>

lemma analyzePosture_visible:
  assumes len: "length frame = 33"
    and gate: "6 / 10 < visibilityOr0 (frame ! NOSE)"
      "6 / 10 < visibilityOr0 (frame ! LEFT_SHOULDER)"
      "6 / 10 < visibilityOr0 (frame ! RIGHT_SHOULDER)"
      "6 / 10 < visibilityOr0 (frame ! LEFT_EAR)"
      "6 / 10 < visibilityOr0 (frame ! RIGHT_EAR)"
  shows "\<exists>eyeData orientation s t al h y p det'.
      analyzeEyeVisibility frame = Inr eyeData
      \<and> eyesVisible eyeData =
        (6 / 10 < visibilityOr0 (frame ! LEFT_EYE) \<and> 6 / 10 < visibilityOr0 (frame ! RIGHT_EYE))
      \<and> calculateHeadOrientation frame = Inr orientation
      \<and> s = fst (addToSmoothingBuffer (slouchAngles (smoothingBuffer det))
                (calculateSlouchAngle (frame ! LEFT_SHOULDER) (frame ! RIGHT_SHOULDER)
                   (frame ! LEFT_EAR) (frame ! RIGHT_EAR)))
      \<and> t = fst (addToSmoothingBuffer (headTiltAngles (smoothingBuffer det))
                (if eyesVisible eyeData
                 then calculateSagittalHeadTilt (frame ! LEFT_EYE) (frame ! RIGHT_EYE)
                        (frame ! LEFT_EAR) (frame ! RIGHT_EAR)
                 else calculateHeadTilt (frame ! NOSE) (frame ! LEFT_SHOULDER)
                        (frame ! RIGHT_SHOULDER)))
      \<and> al = fst (addToSmoothingBuffer (shoulderAlignments (smoothingBuffer det))
                (calculateShoulderAlignment (frame ! LEFT_SHOULDER) (frame ! RIGHT_SHOULDER)))
      \<and> h = fst (addToSmoothingBuffer (shoulderHeights (smoothingBuffer det))
                (calculateShoulderHeight (frame ! LEFT_SHOULDER) (frame ! RIGHT_SHOULDER)))
      \<and> y = fst (addToSmoothingBuffer (headYaws (smoothingBuffer det)) (yaw orientation))
      \<and> p = fst (addToSmoothingBuffer (headPitches (smoothingBuffer det)) (pitch orientation))
      \<and> analyzePosture det frame =
         (Inr \<lparr>type = fst (determinePostureIssue eyeData (calibrationBaseline det) s t al h y p),
               confidence = snd (determinePostureIssue eyeData (calibrationBaseline det) s t al h y p),
               slouchAngle = s, headTiltAngle = t, shoulderAlignment = al,
               headYaw = y, headPitch = p\<rparr>, det')
      \<and> calibrationBaseline det' = calibrationBaseline det"
  using gate
  by (simp add: analyzePosture_def analyzeEyeVisibility_def calculateHeadOrientation_def
     landmarkAt_frame [OF len] landmark_indices CONFIDENCE_THRESHOLD_def
     EYE_VISIBILITY_THRESHOLD_def Let_def case_prod_beta)

lemma analyzePosture_buffers:
  assumes len: "length frame = 33"
    and gate: "6 / 10 < visibilityOr0 (frame ! NOSE)"
      "6 / 10 < visibilityOr0 (frame ! LEFT_SHOULDER)"
      "6 / 10 < visibilityOr0 (frame ! RIGHT_SHOULDER)"
      "6 / 10 < visibilityOr0 (frame ! LEFT_EAR)"
      "6 / 10 < visibilityOr0 (frame ! RIGHT_EAR)"
  shows "\<exists>eyeData orientation.
      analyzeEyeVisibility frame = Inr eyeData
      \<and> calculateHeadOrientation frame = Inr orientation
      \<and> snd (analyzePosture det frame) =
          det\<lparr>smoothingBuffer :=
            \<lparr>slouchAngles =
               snd (addToSmoothingBuffer (slouchAngles (smoothingBuffer det))
                 (calculateSlouchAngle (frame ! LEFT_SHOULDER) (frame ! RIGHT_SHOULDER)
                    (frame ! LEFT_EAR) (frame ! RIGHT_EAR))),
             headTiltAngles =
               snd (addToSmoothingBuffer (headTiltAngles (smoothingBuffer det))
                 (if eyesVisible eyeData
                  then calculateSagittalHeadTilt (frame ! LEFT_EYE) (frame ! RIGHT_EYE)
                         (frame ! LEFT_EAR) (frame ! RIGHT_EAR)
                  else calculateHeadTilt (frame ! NOSE) (frame ! LEFT_SHOULDER)
                         (frame ! RIGHT_SHOULDER))),
             shoulderAlignments =
               snd (addToSmoothingBuffer (shoulderAlignments (smoothingBuffer det))
                 (calculateShoulderAlignment (frame ! LEFT_SHOULDER) (frame ! RIGHT_SHOULDER))),
             shoulderHeights =
               snd (addToSmoothingBuffer (shoulderHeights (smoothingBuffer det))
                 (calculateShoulderHeight (frame ! LEFT_SHOULDER) (frame ! RIGHT_SHOULDER))),
             headYaws =
               snd (addToSmoothingBuffer (headYaws (smoothingBuffer det)) (yaw orientation)),
             headPitches =
               snd (addToSmoothingBuffer (headPitches (smoothingBuffer det))
                 (pitch orientation))\<rparr>\<rparr>"
  using gate
  by (simp add: analyzePosture_def analyzeEyeVisibility_def calculateHeadOrientation_def
     landmarkAt_frame [OF len] landmark_indices CONFIDENCE_THRESHOLD_def
     EYE_VISIBILITY_THRESHOLD_def Let_def case_prod_beta)

lemma analyzePosture_hidden:
  assumes len: "length frame = 33"
    and low: "\<not> (6 / 10 < visibilityOr0 (frame ! NOSE)
      \<and> 6 / 10 < visibilityOr0 (frame ! LEFT_SHOULDER)
      \<and> 6 / 10 < visibilityOr0 (frame ! RIGHT_SHOULDER)
      \<and> 6 / 10 < visibilityOr0 (frame ! LEFT_EAR)
      \<and> 6 / 10 < visibilityOr0 (frame ! RIGHT_EAR))"
  shows "analyzePosture det frame = (Inr createNoPersonAnalysis, det)"
proof -
  have "allVisibleAbove CONFIDENCE_THRESHOLD
          [landmarkAt frame NOSE,
           landmarkAt frame LEFT_SHOULDER, landmarkAt frame RIGHT_SHOULDER,
           landmarkAt frame LEFT_EAR, landmarkAt frame RIGHT_EAR] = Inr False"
    using low
    by (auto simp add: landmarkAt_frame [OF len] landmark_indices CONFIDENCE_THRESHOLD_def)
  then show ?thesis
    by (simp add: analyzePosture_def)
qed

section \<open>Smoothing\<close>

text \<open>
  C7. Pushing a value appends it, drops the oldest element exactly when the buffer
  already held five (so that the length would exceed the capacity), and returns the
  unweighted arithmetic mean of what is kept. Pushing 10, 20, 30, 40, 50, 60 into an
  empty buffer returns the means 10, 15, 20, 25, 30, 40, the last one over the window
  20, 30, 40, 50, 60.
\<close>

theorem smoothing_buffer_push:
  "snd (addToSmoothingBuffer buffer v) =
     (if 5 \<le> length buffer then tl buffer @ [v] else buffer @ [v])
   \<and> fst (addToSmoothingBuffer buffer v) =
       sum_list (snd (addToSmoothingBuffer buffer v)) /
         real (length (snd (addToSmoothingBuffer buffer v)))
   \<and> pushAll [] [10, 20, 30, 40, 50, 60] = [10, 15, 20, 25, 30, 40]
   \<and> addToSmoothingBuffer [10, 20, 30, 40, 50] 60 = (40, [20, 30, 40, 50, 60])"
proof (intro conjI)
  show "snd (addToSmoothingBuffer buffer v) =
     (if 5 \<le> length buffer then tl buffer @ [v] else buffer @ [v])"
    by (rule addToSmoothingBuffer_kept)
  show "fst (addToSmoothingBuffer buffer v) =
       sum_list (snd (addToSmoothingBuffer buffer v)) /
         real (length (snd (addToSmoothingBuffer buffer v)))"
    by (rule addToSmoothingBuffer_mean)
  show "pushAll [] [10, 20, 30, 40, 50, 60] = [10, 15, 20, 25, 30, 40]"
    by (simp add: addToSmoothingBuffer_def SMOOTHING_WINDOW_SIZE_def)
  show "addToSmoothingBuffer [10, 20, 30, 40, 50] 60 = (40, [20, 30, 40, 50, 60])"
    by (simp add: addToSmoothingBuffer_def SMOOTHING_WINDOW_SIZE_def)
qed

section \<open>Calibration\<close>

subsection \<open>Clearing\<close>

text \<open>
  A detector with no baseline whose buffers are not empty, reached from a new detector by
  one analysed frame: \<^verbatim>\<open>clearCalibration\<close> empties its buffers, so clearing with
  no baseline is not always a no-op (C8 as stated fails here).
\<close>

theorem clearCalibration_changes_buffers_counterexample:
  "fst (analyzePosture newDetector (exampleFrame (Some 1) (Some 1) 0 (1 / 100))) =
     Inr \<lparr>type = good_posture, confidence = 9 / 10, slouchAngle = 45, headTiltAngle = 0,
          shoulderAlignment = 0, headYaw = 0, headPitch = 0\<rparr>
   \<and> snd (analyzePosture newDetector (exampleFrame (Some 1) (Some 1) 0 (1 / 100))) =
       exampleWarmDetector
   \<and> calibrationBaseline exampleWarmDetector = None
   \<and> slouchAngles (smoothingBuffer exampleWarmDetector) = [45]
   \<and> slouchAngles (smoothingBuffer (clearCalibration exampleWarmDetector)) = []
   \<and> clearCalibration exampleWarmDetector \<noteq> exampleWarmDetector"
proof -
  have "slouchAngles (smoothingBuffer (clearCalibration exampleWarmDetector)) = []"
    by (simp add: clearCalibration_def emptySmoothingBuffer_def)
  moreover have "slouchAngles (smoothingBuffer exampleWarmDetector) = [45]"
    by (simp add: exampleWarmDetector_def)
  ultimately have "clearCalibration exampleWarmDetector \<noteq> exampleWarmDetector"
    by auto
  then show ?thesis
    by (simp add: exampleWarmDetector_reached)
       (simp add: exampleWarmDetector_def newDetector_def clearCalibration_def
          emptySmoothingBuffer_def)
qed

text \<open>
  C8, amended. \<^verbatim>\<open>clearCalibration\<close> is idempotent: from any detector, two calls
  in a row leave the state one call leaves, which has no baseline and six empty buffers
  (the other fields are untouched). It cannot fail, with or without a baseline. With no
  baseline it leaves the baseline absent and still empties the buffers: it changes
  nothing exactly when there is no baseline and the buffers are already empty.
\<close>

theorem clearCalibration_idempotent:
  "clearCalibration (clearCalibration det) = clearCalibration det
   \<and> calibrationBaseline (clearCalibration det) = None
   \<and> smoothingBuffer (clearCalibration det) = emptySmoothingBuffer
   \<and> isInitialized (clearCalibration det) = isInitialized det
   \<and> isProcessing (clearCalibration det) = isProcessing det
   \<and> (clearCalibration det = det) =
       (calibrationBaseline det = None \<and> smoothingBuffer det = emptySmoothingBuffer)"
  by (cases det) (auto simp add: clearCalibration_def)

subsection \<open>Calibrating\<close>

text \<open>Calibration succeeds on every frame of 33 landmarks whose seven landmarks are visible.\<close>

lemma calibrate_succeeds:
  assumes len: "length frame = 33"
    and vis: "6 / 10 < visibilityOr0 (frame ! NOSE)"
      "6 / 10 < visibilityOr0 (frame ! LEFT_SHOULDER)"
      "6 / 10 < visibilityOr0 (frame ! RIGHT_SHOULDER)"
      "6 / 10 < visibilityOr0 (frame ! LEFT_EAR)"
      "6 / 10 < visibilityOr0 (frame ! RIGHT_EAR)"
      "6 / 10 < visibilityOr0 (frame ! LEFT_EYE)"
      "6 / 10 < visibilityOr0 (frame ! RIGHT_EYE)"
  shows "\<exists>det'. calibrate det now frame = (Inr (), det')"
  using vis
  by (simp add: calibrate_def analyzeEyeVisibility_def calculateHeadOrientation_def
      landmarkAt_frame [OF len] landmark_indices CONFIDENCE_THRESHOLD_def Let_def)

lemma calibrate_zero_frame:
  "calibrate det now (exampleFrame (Some 1) (Some 1) 0 0) =
     (Inr (), det\<lparr>calibrationBaseline :=
        Some \<lparr>CalibrationBaseline.slouchAngle = 0, CalibrationBaseline.headTiltAngle = 0,
              CalibrationBaseline.shoulderAlignment = 0, CalibrationBaseline.shoulderHeight = 0,
              CalibrationBaseline.headYaw = 0, CalibrationBaseline.headPitch = 0,
              CalibrationBaseline.timestamp = now\<rparr>,
        smoothingBuffer := emptySmoothingBuffer\<rparr>)"
  by (simp add: calibrate_def example_eval)

text \<open>
  The calibration flow of the hook: the frame is analysed (which pushes it into the
  buffers and reports the smoothed metrics), then \<^verbatim>\<open>calibrate\<close> is called on the
  same landmarks. In the warm example detector the buffers hold an upright frame (slouch
  angle 45); the calibration frame has the ears level with the shoulders (slouch angle
  0). The smoothed slouch angle at calibration is 22.5, and the baseline stores 0: the
  baseline is not a snapshot of the smoothed metrics (C5 as stated fails here).
\<close>

theorem calibrate_baseline_not_smoothed_counterexample:
  "analyzePosture exampleWarmDetector (exampleFrame (Some 1) (Some 1) 0 0) =
     (Inr \<lparr>type = slouching, confidence = 95 / 100, slouchAngle = 45 / 2, headTiltAngle = 0,
           shoulderAlignment = 0, headYaw = 0, headPitch = 0\<rparr>,
      exampleWarmDetector\<lparr>smoothingBuffer :=
        \<lparr>slouchAngles = [45, 0], headTiltAngles = [0, 0], shoulderAlignments = [0, 0],
         shoulderHeights = [1 / 100, 0], headYaws = [0, 0], headPitches = [0, 0]\<rparr>\<rparr>)
   \<and> fst (calibrate (snd (analyzePosture exampleWarmDetector (exampleFrame (Some 1) (Some 1) 0 0)))
            1000 (exampleFrame (Some 1) (Some 1) 0 0)) = Inr ()
   \<and> map_option CalibrationBaseline.slouchAngle
       (getCalibration (snd (calibrate
          (snd (analyzePosture exampleWarmDetector (exampleFrame (Some 1) (Some 1) 0 0)))
          1000 (exampleFrame (Some 1) (Some 1) 0 0)))) = Some 0"
  by (simp add: calibrate_zero_frame getCalibration_def)
     (simp add: analyzePosture_def example_eval exampleWarmDetector_def newDetector_def)

text \<open>
  C5, amended. After every successful \<^verbatim>\<open>calibrate(frame)\<close> the stored baseline
  holds the six metrics computed by the geometry calculators from the calibration frame
  itself, not smoothed (the head tilt by the eye-based calculator), plus the capture
  timestamp; all six smoothing buffers are empty, so the next value pushed into any of
  them is returned as the mean. A successful call implies that the frame has the
  landmarks read here.
\<close>

theorem calibrate_stores_frame_metrics:
  assumes ok: "calibrate det now frame = (Inr (), det')"
  shows "RIGHT_SHOULDER < length frame
    \<and> (\<exists>headOrientation. calculateHeadOrientation frame = Inr headOrientation \<and>
        calibrationBaseline det' =
          Some \<lparr>CalibrationBaseline.slouchAngle =
                  calculateSlouchAngle (frame ! LEFT_SHOULDER) (frame ! RIGHT_SHOULDER)
                    (frame ! LEFT_EAR) (frame ! RIGHT_EAR),
                CalibrationBaseline.headTiltAngle =
                  calculateSagittalHeadTilt (frame ! LEFT_EYE) (frame ! RIGHT_EYE)
                    (frame ! LEFT_EAR) (frame ! RIGHT_EAR),
                CalibrationBaseline.shoulderAlignment =
                  calculateShoulderAlignment (frame ! LEFT_SHOULDER) (frame ! RIGHT_SHOULDER),
                CalibrationBaseline.shoulderHeight =
                  calculateShoulderHeight (frame ! LEFT_SHOULDER) (frame ! RIGHT_SHOULDER),
                CalibrationBaseline.headYaw = yaw headOrientation,
                CalibrationBaseline.headPitch = pitch headOrientation,
                CalibrationBaseline.timestamp = now\<rparr>)
    \<and> smoothingBuffer det' = emptySmoothingBuffer
    \<and> fst (addToSmoothingBuffer (slouchAngles (smoothingBuffer det')) v) = v
    \<and> fst (addToSmoothingBuffer (headTiltAngles (smoothingBuffer det')) v) = v
    \<and> fst (addToSmoothingBuffer (shoulderAlignments (smoothingBuffer det')) v) = v
    \<and> fst (addToSmoothingBuffer (shoulderHeights (smoothingBuffer det')) v) = v
    \<and> fst (addToSmoothingBuffer (headYaws (smoothingBuffer det')) v) = v
    \<and> fst (addToSmoothingBuffer (headPitches (smoothingBuffer det')) v) = v
    \<and> isInitialized det' = isInitialized det \<and> isProcessing det' = isProcessing det"
proof -
  from ok have buf: "smoothingBuffer det' = emptySmoothingBuffer"
    by (auto simp add: calibrate_def Let_def split: if_splits sum.splits option.splits)
  from ok show ?thesis
    unfolding buf
    by (auto simp add: calibrate_def landmarkAt_def landmark_indices Let_def
        emptySmoothingBuffer_def addToSmoothingBuffer_empty
        split: if_splits sum.splits option.splits)
qed

text \<open>
  Witness: calibrating the warm example detector on the level frame succeeds, stores that
  frame's metrics (all 0) with the timestamp, and empties the buffers.
\<close>

theorem calibrate_stores_frame_metrics_witness:
  "calibrate exampleWarmDetector 1000 (exampleFrame (Some 1) (Some 1) 0 0) =
     (Inr (), exampleWarmDetector\<lparr>calibrationBaseline :=
        Some \<lparr>CalibrationBaseline.slouchAngle = 0, CalibrationBaseline.headTiltAngle = 0,
              CalibrationBaseline.shoulderAlignment = 0, CalibrationBaseline.shoulderHeight = 0,
              CalibrationBaseline.headYaw = 0, CalibrationBaseline.headPitch = 0,
              CalibrationBaseline.timestamp = 1000\<rparr>,
        smoothingBuffer := emptySmoothingBuffer\<rparr>)
   \<and> smoothingBuffer (snd (calibrate exampleWarmDetector 1000 (exampleFrame (Some 1) (Some 1) 0 0)))
       = emptySmoothingBuffer
   \<and> fst (addToSmoothingBuffer (slouchAngles (smoothingBuffer
         (snd (calibrate exampleWarmDetector 1000 (exampleFrame (Some 1) (Some 1) 0 0))))) 7) = 7"
proof -
  let ?r = "calibrate exampleWarmDetector 1000 (exampleFrame (Some 1) (Some 1) 0 0)"
  have ok: "?r = (Inr (), snd ?r)"
    by (simp add: calibrate_zero_frame)
  from calibrate_stores_frame_metrics [OF ok, of 7]
  have "smoothingBuffer (snd ?r) = emptySmoothingBuffer"
    and "fst (addToSmoothingBuffer (slouchAngles (smoothingBuffer (snd ?r))) 7) = 7"
    by blast+
  then show ?thesis
    by (simp add: calibrate_zero_frame)
qed

subsection \<open>Calibration refused\<close>

text \<open>
  C6. On a frame of 33 landmarks, \<^verbatim>\<open>calibrate\<close> throws the person-not-visible
  error whenever one of nose, left or right shoulder, left or right ear, left or right
  eye has visibility (0 when absent) below 0.6, and the detector is then exactly as
  before the call: the baseline, if any, and the smoothing buffers are untouched.
\<close>

theorem calibrate_person_not_visible:
  assumes len: "length frame = 33"
    and low: "visibilityOr0 (frame ! NOSE) < 6 / 10
      \<or> visibilityOr0 (frame ! LEFT_SHOULDER) < 6 / 10
      \<or> visibilityOr0 (frame ! RIGHT_SHOULDER) < 6 / 10
      \<or> visibilityOr0 (frame ! LEFT_EAR) < 6 / 10
      \<or> visibilityOr0 (frame ! RIGHT_EAR) < 6 / 10
      \<or> visibilityOr0 (frame ! LEFT_EYE) < 6 / 10
      \<or> visibilityOr0 (frame ! RIGHT_EYE) < 6 / 10"
  shows "calibrate det now frame = (Inl PersonNotVisible, det)"
proof -
  have "allVisibleAbove CONFIDENCE_THRESHOLD
          [landmarkAt frame NOSE,
           landmarkAt frame LEFT_SHOULDER, landmarkAt frame RIGHT_SHOULDER,
           landmarkAt frame LEFT_EAR, landmarkAt frame RIGHT_EAR,
           landmarkAt frame LEFT_EYE, landmarkAt frame RIGHT_EYE] = Inr False"
    using low
    by (auto simp add: landmarkAt_frame [OF len] landmark_indices CONFIDENCE_THRESHOLD_def)
  then show ?thesis
    by (simp add: calibrate_def)
qed

text \<open>
  Witness: a frame whose eyes have visibility 0.5, offered to the calibrated example
  detector. The call throws, the baseline still has slouch angle 45 and the slouch buffer
  still holds its value.
\<close>

theorem calibrate_person_not_visible_witness:
  "length (exampleFrame (Some 1) (Some (1 / 2)) 0 0) = 33
   \<and> visibilityOr0 (exampleFrame (Some 1) (Some (1 / 2)) 0 0 ! LEFT_EYE) < 6 / 10
   \<and> calibrate exampleCalibratedDetector 2000 (exampleFrame (Some 1) (Some (1 / 2)) 0 0) =
       (Inl PersonNotVisible, exampleCalibratedDetector)
   \<and> map_option CalibrationBaseline.slouchAngle
        (getCalibration (snd (calibrate exampleCalibratedDetector 2000
           (exampleFrame (Some 1) (Some (1 / 2)) 0 0)))) = Some 45
   \<and> slouchAngles (smoothingBuffer (snd (calibrate exampleCalibratedDetector 2000
           (exampleFrame (Some 1) (Some (1 / 2)) 0 0)))) = [45]"
proof -
  let ?f = "exampleFrame (Some 1) (Some (1 / 2)) 0 0"
  have low: "visibilityOr0 (?f ! LEFT_EYE) < 6 / 10"
    by (simp add: exampleFrame_nth visibilityOr0_exampleLandmark)
  then have "visibilityOr0 (?f ! NOSE) < 6 / 10
      \<or> visibilityOr0 (?f ! LEFT_SHOULDER) < 6 / 10
      \<or> visibilityOr0 (?f ! RIGHT_SHOULDER) < 6 / 10
      \<or> visibilityOr0 (?f ! LEFT_EAR) < 6 / 10
      \<or> visibilityOr0 (?f ! RIGHT_EAR) < 6 / 10
      \<or> visibilityOr0 (?f ! LEFT_EYE) < 6 / 10
      \<or> visibilityOr0 (?f ! RIGHT_EYE) < 6 / 10"
    by blast
  from calibrate_person_not_visible [OF length_exampleFrame this, of exampleCalibratedDetector 2000]
  have "calibrate exampleCalibratedDetector 2000 ?f = (Inl PersonNotVisible, exampleCalibratedDetector)" .
  with low show ?thesis
    by (simp add: length_exampleFrame getCalibration_def exampleCalibratedDetector_def
        exampleWarmDetector_def)
qed

section \<open>Classification\<close>

subsection \<open>Eyes not visible\<close>

text \<open>
  C1. For every frame of 33 landmarks that passes the visibility gate on nose, shoulders
  and ears but whose eyes are not both above 0.6, the analysis returns the five smoothed
  angles of the frame (the means returned by the pushes, the head tilt computed by the
  nose-based calculator), with confidence 0.9 and type \<^verbatim>\<open>looking-down\<close> when
  the smoothed head pitch exceeds 15 degrees in absolute value or the smoothed head tilt
  exceeds 15 degrees, and \<^verbatim>\<open>looking-away\<close> otherwise; hence never
  \<^verbatim>\<open>good-posture\<close> or \<^verbatim>\<open>slouching\<close>. The detector is arbitrary: a
  baseline, whatever it holds, plays no part; the detector returned has the six pushed
  buffers and is otherwise unchanged.
\<close>

theorem eyes_hidden_classification:
  assumes len: "length frame = 33"
    and gate: "6 / 10 < visibilityOr0 (frame ! NOSE)"
      "6 / 10 < visibilityOr0 (frame ! LEFT_SHOULDER)"
      "6 / 10 < visibilityOr0 (frame ! RIGHT_SHOULDER)"
      "6 / 10 < visibilityOr0 (frame ! LEFT_EAR)"
      "6 / 10 < visibilityOr0 (frame ! RIGHT_EAR)"
    and eyes: "\<not> (6 / 10 < visibilityOr0 (frame ! LEFT_EYE)
                \<and> 6 / 10 < visibilityOr0 (frame ! RIGHT_EYE))"
  shows "\<exists>a det' orientation. analyzePosture det frame = (Inr a, det')
      \<and> calculateHeadOrientation frame = Inr orientation
      \<and> slouchAngle a =
          fst (addToSmoothingBuffer (slouchAngles (smoothingBuffer det))
                (calculateSlouchAngle (frame ! LEFT_SHOULDER) (frame ! RIGHT_SHOULDER)
                   (frame ! LEFT_EAR) (frame ! RIGHT_EAR)))
      \<and> headTiltAngle a =
          fst (addToSmoothingBuffer (headTiltAngles (smoothingBuffer det))
                (calculateHeadTilt (frame ! NOSE) (frame ! LEFT_SHOULDER)
                   (frame ! RIGHT_SHOULDER)))
      \<and> shoulderAlignment a =
          fst (addToSmoothingBuffer (shoulderAlignments (smoothingBuffer det))
                (calculateShoulderAlignment (frame ! LEFT_SHOULDER) (frame ! RIGHT_SHOULDER)))
      \<and> headYaw a =
          fst (addToSmoothingBuffer (headYaws (smoothingBuffer det)) (yaw orientation))
      \<and> headPitch a =
          fst (addToSmoothingBuffer (headPitches (smoothingBuffer det)) (pitch orientation))
      \<and> confidence a = 9 / 10
      \<and> type a = (if 15 < \<bar>headPitch a\<bar> \<or> 15 < headTiltAngle a
                  then looking_down else looking_away)
      \<and> type a \<noteq> good_posture \<and> type a \<noteq> slouching
      \<and> det' =
          det\<lparr>smoothingBuffer :=
            \<lparr>slouchAngles =
               snd (addToSmoothingBuffer (slouchAngles (smoothingBuffer det))
                 (calculateSlouchAngle (frame ! LEFT_SHOULDER) (frame ! RIGHT_SHOULDER)
                    (frame ! LEFT_EAR) (frame ! RIGHT_EAR))),
             headTiltAngles =
               snd (addToSmoothingBuffer (headTiltAngles (smoothingBuffer det))
                 (calculateHeadTilt (frame ! NOSE) (frame ! LEFT_SHOULDER)
                    (frame ! RIGHT_SHOULDER))),
             shoulderAlignments =
               snd (addToSmoothingBuffer (shoulderAlignments (smoothingBuffer det))
                 (calculateShoulderAlignment (frame ! LEFT_SHOULDER) (frame ! RIGHT_SHOULDER))),
             shoulderHeights =
               snd (addToSmoothingBuffer (shoulderHeights (smoothingBuffer det))
                 (calculateShoulderHeight (frame ! LEFT_SHOULDER) (frame ! RIGHT_SHOULDER))),
             headYaws =
               snd (addToSmoothingBuffer (headYaws (smoothingBuffer det)) (yaw orientation)),
             headPitches =
               snd (addToSmoothingBuffer (headPitches (smoothingBuffer det))
                 (pitch orientation))\<rparr>\<rparr>"
proof -
  obtain eyeData orientation s t al h y p det' where
    eyeData: "analyzeEyeVisibility frame = Inr eyeData"
    and hidden: "\<not> eyesVisible eyeData"
    and ori: "calculateHeadOrientation frame = Inr orientation"
    and s: "s = fst (addToSmoothingBuffer (slouchAngles (smoothingBuffer det))
                (calculateSlouchAngle (frame ! LEFT_SHOULDER) (frame ! RIGHT_SHOULDER)
                   (frame ! LEFT_EAR) (frame ! RIGHT_EAR)))"
    and t: "t = fst (addToSmoothingBuffer (headTiltAngles (smoothingBuffer det))
                (if eyesVisible eyeData
                 then calculateSagittalHeadTilt (frame ! LEFT_EYE) (frame ! RIGHT_EYE)
                        (frame ! LEFT_EAR) (frame ! RIGHT_EAR)
                 else calculateHeadTilt (frame ! NOSE) (frame ! LEFT_SHOULDER)
                        (frame ! RIGHT_SHOULDER)))"
    and al: "al = fst (addToSmoothingBuffer (shoulderAlignments (smoothingBuffer det))
                (calculateShoulderAlignment (frame ! LEFT_SHOULDER) (frame ! RIGHT_SHOULDER)))"
    and y: "y = fst (addToSmoothingBuffer (headYaws (smoothingBuffer det)) (yaw orientation))"
    and p: "p = fst (addToSmoothingBuffer (headPitches (smoothingBuffer det)) (pitch orientation))"
    and res: "analyzePosture det frame =
         (Inr \<lparr>type = fst (determinePostureIssue eyeData (calibrationBaseline det) s t al h y p),
               confidence = snd (determinePostureIssue eyeData (calibrationBaseline det) s t al h y p),
               slouchAngle = s, headTiltAngle = t, shoulderAlignment = al,
               headYaw = y, headPitch = p\<rparr>, det')"
    using analyzePosture_visible [OF len gate, of det] eyes by blast
  from analyzePosture_buffers [OF len gate, of det] eyeData ori hidden res
  have state: "det' =
          det\<lparr>smoothingBuffer :=
            \<lparr>slouchAngles =
               snd (addToSmoothingBuffer (slouchAngles (smoothingBuffer det))
                 (calculateSlouchAngle (frame ! LEFT_SHOULDER) (frame ! RIGHT_SHOULDER)
                    (frame ! LEFT_EAR) (frame ! RIGHT_EAR))),
             headTiltAngles =
               snd (addToSmoothingBuffer (headTiltAngles (smoothingBuffer det))
                 (calculateHeadTilt (frame ! NOSE) (frame ! LEFT_SHOULDER)
                    (frame ! RIGHT_SHOULDER))),
             shoulderAlignments =
               snd (addToSmoothingBuffer (shoulderAlignments (smoothingBuffer det))
                 (calculateShoulderAlignment (frame ! LEFT_SHOULDER) (frame ! RIGHT_SHOULDER))),
             shoulderHeights =
               snd (addToSmoothingBuffer (shoulderHeights (smoothingBuffer det))
                 (calculateShoulderHeight (frame ! LEFT_SHOULDER) (frame ! RIGHT_SHOULDER))),
             headYaws =
               snd (addToSmoothingBuffer (headYaws (smoothingBuffer det)) (yaw orientation)),
             headPitches =
               snd (addToSmoothingBuffer (headPitches (smoothingBuffer det))
                 (pitch orientation))\<rparr>\<rparr>"
    by auto
  from hidden t have t': "t = fst (addToSmoothingBuffer (headTiltAngles (smoothingBuffer det))
                (calculateHeadTilt (frame ! NOSE) (frame ! LEFT_SHOULDER)
                   (frame ! RIGHT_SHOULDER)))"
    by simp
  show ?thesis
    unfolding res determinePostureIssue_eyes_hidden [OF hidden]
    using ori s t' al y p state by simp
qed

text \<open>
  Witness, with both eyes at visibility 0.5: the upright frame in the calibrated example
  detector, whose baseline is that very posture, is \<^verbatim>\<open>looking-away\<close> (smoothed
  tilt -2/3, pitch 0); a frame whose nose lies 0.3 below the shoulder line, on a new
  detector, is \<^verbatim>\<open>looking-down\<close> (tilt 40). Both have confidence 0.9.
\<close>

theorem eyes_hidden_classification_witness:
  "length (exampleFrame (Some 1) (Some (1 / 2)) 0 (1 / 100)) = 33
   \<and> 6 / 10 < visibilityOr0 (exampleFrame (Some 1) (Some (1 / 2)) 0 (1 / 100) ! NOSE)
   \<and> 6 / 10 < visibilityOr0 (exampleFrame (Some 1) (Some (1 / 2)) 0 (1 / 100) ! LEFT_SHOULDER)
   \<and> 6 / 10 < visibilityOr0 (exampleFrame (Some 1) (Some (1 / 2)) 0 (1 / 100) ! RIGHT_SHOULDER)
   \<and> 6 / 10 < visibilityOr0 (exampleFrame (Some 1) (Some (1 / 2)) 0 (1 / 100) ! LEFT_EAR)
   \<and> 6 / 10 < visibilityOr0 (exampleFrame (Some 1) (Some (1 / 2)) 0 (1 / 100) ! RIGHT_EAR)
   \<and> \<not> (6 / 10 < visibilityOr0 (exampleFrame (Some 1) (Some (1 / 2)) 0 (1 / 100) ! LEFT_EYE)
        \<and> 6 / 10 < visibilityOr0 (exampleFrame (Some 1) (Some (1 / 2)) 0 (1 / 100) ! RIGHT_EYE))
   \<and> calibrationBaseline exampleCalibratedDetector \<noteq> None
   \<and> (\<exists>a det'. analyzePosture exampleCalibratedDetector
                   (exampleFrame (Some 1) (Some (1 / 2)) 0 (1 / 100)) = (Inr a, det')
         \<and> headTiltAngle a = - (2 / 3) \<and> headPitch a = 0
         \<and> confidence a = 9 / 10 \<and> type a = looking_away)
   \<and> (\<exists>a det'. analyzePosture newDetector
                   (exampleFrame (Some 1) (Some (1 / 2)) 0 (- (3 / 10))) = (Inr a, det')
         \<and> headTiltAngle a = 40 \<and> headPitch a = 0
         \<and> confidence a = 9 / 10 \<and> type a = looking_down)"
proof -
  let ?f = "exampleFrame (Some 1) (Some (1 / 2)) 0 (1 / 100)"
  let ?g = "exampleFrame (Some 1) (Some (1 / 2)) 0 (- (3 / 10))"
  have hyps: "6 / 10 < visibilityOr0 (exampleFrame (Some 1) (Some (1 / 2)) 0 sy ! NOSE)"
    "6 / 10 < visibilityOr0 (exampleFrame (Some 1) (Some (1 / 2)) 0 sy ! LEFT_SHOULDER)"
    "6 / 10 < visibilityOr0 (exampleFrame (Some 1) (Some (1 / 2)) 0 sy ! RIGHT_SHOULDER)"
    "6 / 10 < visibilityOr0 (exampleFrame (Some 1) (Some (1 / 2)) 0 sy ! LEFT_EAR)"
    "6 / 10 < visibilityOr0 (exampleFrame (Some 1) (Some (1 / 2)) 0 sy ! RIGHT_EAR)"
    "\<not> (6 / 10 < visibilityOr0 (exampleFrame (Some 1) (Some (1 / 2)) 0 sy ! LEFT_EYE)
       \<and> 6 / 10 < visibilityOr0 (exampleFrame (Some 1) (Some (1 / 2)) 0 sy ! RIGHT_EYE))" for sy
    by (simp_all add: exampleFrame_nth visibilityOr0_exampleLandmark)
  have away: "\<exists>a det'. analyzePosture exampleCalibratedDetector ?f = (Inr a, det')
         \<and> headTiltAngle a = - (2 / 3) \<and> headPitch a = 0
         \<and> confidence a = 9 / 10 \<and> type a = looking_away"
  proof -
    from eyes_hidden_classification [OF length_exampleFrame hyps, of exampleCalibratedDetector]
    obtain a det' orientation
      where res: "analyzePosture exampleCalibratedDetector ?f = (Inr a, det')"
      and ori: "calculateHeadOrientation ?f = Inr orientation"
      and tilt: "headTiltAngle a =
          fst (addToSmoothingBuffer (headTiltAngles (smoothingBuffer exampleCalibratedDetector))
                (calculateHeadTilt (?f ! NOSE) (?f ! LEFT_SHOULDER) (?f ! RIGHT_SHOULDER)))"
      and pitch: "headPitch a =
          fst (addToSmoothingBuffer (headPitches (smoothingBuffer exampleCalibratedDetector))
                (pitch orientation))"
      and conf: "confidence a = 9 / 10"
      and ty: "type a = (if 15 < \<bar>headPitch a\<bar> \<or> 15 < headTiltAngle a
                  then looking_down else looking_away)"
      by blast
    from tilt have tilt': "headTiltAngle a = - (2 / 3)"
      by (simp add: exampleFrame_nth example_eval exampleCalibratedDetector_def
          exampleWarmDetector_def)
    from ori pitch have pitch': "headPitch a = 0"
      by (auto simp add: example_eval exampleCalibratedDetector_def exampleWarmDetector_def)
    from ty tilt' pitch' have "type a = looking_away"
      by simp
    with res conf tilt' pitch' show ?thesis
      by blast
  qed
  have down: "\<exists>a det'. analyzePosture newDetector ?g = (Inr a, det')
         \<and> headTiltAngle a = 40 \<and> headPitch a = 0
         \<and> confidence a = 9 / 10 \<and> type a = looking_down"
  proof -
    from eyes_hidden_classification [OF length_exampleFrame hyps, of newDetector]
    obtain a det' orientation
      where res: "analyzePosture newDetector ?g = (Inr a, det')"
      and ori: "calculateHeadOrientation ?g = Inr orientation"
      and tilt: "headTiltAngle a =
          fst (addToSmoothingBuffer (headTiltAngles (smoothingBuffer newDetector))
                (calculateHeadTilt (?g ! NOSE) (?g ! LEFT_SHOULDER) (?g ! RIGHT_SHOULDER)))"
      and pitch: "headPitch a =
          fst (addToSmoothingBuffer (headPitches (smoothingBuffer newDetector))
                (pitch orientation))"
      and conf: "confidence a = 9 / 10"
      and ty: "type a = (if 15 < \<bar>headPitch a\<bar> \<or> 15 < headTiltAngle a
                  then looking_down else looking_away)"
      by blast
    from tilt have tilt': "headTiltAngle a = 40"
      by (simp add: exampleFrame_nth example_eval newDetector_def emptySmoothingBuffer_def)
    from ori pitch have pitch': "headPitch a = 0"
      by (auto simp add: example_eval newDetector_def emptySmoothingBuffer_def)
    from ty tilt' pitch' have "type a = looking_down"
      by simp
    with res conf tilt' pitch' show ?thesis
      by blast
  qed
  from away down hyps [of "1 / 100"] show ?thesis
    by (simp add: length_exampleFrame exampleCalibratedDetector_def)
qed

subsection \<open>The visibility gate\<close>

text \<open>
  C2. For every frame of 33 landmarks in which nose, left or right shoulder, or left or
  right ear has visibility (0 when absent) below 0.6, the analysis returns the no-person
  result: type \<^verbatim>\<open>no-person\<close>, confidence exactly 0.95 and the five reported
  angles 0. Nothing else is computed: the detector, with its buffers, is returned
  unchanged. An absent frame (\<^verbatim>\<open>null\<close> landmarks) gives the same result.
\<close>

theorem poor_visibility_no_person:
  assumes len: "length frame = 33"
    and low: "visibilityOr0 (frame ! NOSE) < 6 / 10
      \<or> visibilityOr0 (frame ! LEFT_SHOULDER) < 6 / 10
      \<or> visibilityOr0 (frame ! RIGHT_SHOULDER) < 6 / 10
      \<or> visibilityOr0 (frame ! LEFT_EAR) < 6 / 10
      \<or> visibilityOr0 (frame ! RIGHT_EAR) < 6 / 10"
  shows "analyzePosture det frame = (Inr createNoPersonAnalysis, det)
    \<and> detectPose_posture det (Some frame) = (Inr createNoPersonAnalysis, det)
    \<and> detectPose_posture det None = (Inr createNoPersonAnalysis, det)
    \<and> createNoPersonAnalysis =
        \<lparr>type = no_person, confidence = 95 / 100, slouchAngle = 0, headTiltAngle = 0,
         shoulderAlignment = 0, headYaw = 0, headPitch = 0\<rparr>"
proof -
  from low have "\<not> (6 / 10 < visibilityOr0 (frame ! NOSE)
      \<and> 6 / 10 < visibilityOr0 (frame ! LEFT_SHOULDER)
      \<and> 6 / 10 < visibilityOr0 (frame ! RIGHT_SHOULDER)
      \<and> 6 / 10 < visibilityOr0 (frame ! LEFT_EAR)
      \<and> 6 / 10 < visibilityOr0 (frame ! RIGHT_EAR))"
    by auto
  then have "analyzePosture det frame = (Inr createNoPersonAnalysis, det)"
    by (rule analyzePosture_hidden [OF len])
  then show ?thesis
    by (simp add: detectPose_posture_def createNoPersonAnalysis_def)
qed

text \<open>
  Witness: the upright frame with no visibility on the nose, in the calibrated example
  detector; and the absent frame.
\<close>

theorem poor_visibility_no_person_witness:
  "length (exampleFrame None (Some 1) 0 (1 / 100)) = 33
   \<and> visibility (exampleFrame None (Some 1) 0 (1 / 100) ! NOSE) = None
   \<and> visibilityOr0 (exampleFrame None (Some 1) 0 (1 / 100) ! NOSE) < 6 / 10
   \<and> analyzePosture exampleCalibratedDetector (exampleFrame None (Some 1) 0 (1 / 100)) =
        (Inr \<lparr>type = no_person, confidence = 95 / 100, slouchAngle = 0, headTiltAngle = 0,
              shoulderAlignment = 0, headYaw = 0, headPitch = 0\<rparr>,
         exampleCalibratedDetector)
   \<and> detectPose_posture exampleCalibratedDetector None =
        (Inr \<lparr>type = no_person, confidence = 95 / 100, slouchAngle = 0, headTiltAngle = 0,
              shoulderAlignment = 0, headYaw = 0, headPitch = 0\<rparr>,
         exampleCalibratedDetector)"
proof -
  let ?f = "exampleFrame None (Some 1) 0 (1 / 100)"
  have absent: "visibility (?f ! NOSE) = None"
    by (simp add: exampleFrame_nth exampleLandmark_def)
  then have low: "visibilityOr0 (?f ! NOSE) < 6 / 10"
    by (simp add: visibilityOr0_def)
  then have "visibilityOr0 (?f ! NOSE) < 6 / 10
      \<or> visibilityOr0 (?f ! LEFT_SHOULDER) < 6 / 10
      \<or> visibilityOr0 (?f ! RIGHT_SHOULDER) < 6 / 10
      \<or> visibilityOr0 (?f ! LEFT_EAR) < 6 / 10
      \<or> visibilityOr0 (?f ! RIGHT_EAR) < 6 / 10"
    by (rule disjI1)
  from poor_visibility_no_person [OF length_exampleFrame this, of exampleCalibratedDetector]
  show ?thesis
    using absent low by (simp add: length_exampleFrame)
qed

subsection \<open>With a baseline\<close>

text \<open>
  C3. With both eyes visible and a baseline present, the slouching rule comes first. The
  slouch angle of the result is the smoothed one (the mean returned by the push of the
  frame's craniovertebral angle); the deviation threshold is 40 times 1.5, that is 60.
  If the smoothed slouch angle is below 40 or its absolute deviation from the baseline
  exceeds 60, the result is \<^verbatim>\<open>slouching\<close> with confidence
  \<open>min 0.95 (0.6 + max (40 - slouchAngle) slouchDeviation / 10)\<close>, whatever the
  shoulder height, yaw, pitch and tilt are: once the rule fires the later checks have no
  say.
\<close>

theorem baseline_slouching_first:
  assumes len: "length frame = 33"
    and gate: "6 / 10 < visibilityOr0 (frame ! NOSE)"
      "6 / 10 < visibilityOr0 (frame ! LEFT_SHOULDER)"
      "6 / 10 < visibilityOr0 (frame ! RIGHT_SHOULDER)"
      "6 / 10 < visibilityOr0 (frame ! LEFT_EAR)"
      "6 / 10 < visibilityOr0 (frame ! RIGHT_EAR)"
    and eyes: "6 / 10 < visibilityOr0 (frame ! LEFT_EYE)"
      "6 / 10 < visibilityOr0 (frame ! RIGHT_EYE)"
    and base: "calibrationBaseline det = Some baseline"
  shows "\<exists>a det'. analyzePosture det frame = (Inr a, det')
      \<and> slouchAngle a =
          fst (addToSmoothingBuffer (slouchAngles (smoothingBuffer det))
                (calculateSlouchAngle (frame ! LEFT_SHOULDER) (frame ! RIGHT_SHOULDER)
                   (frame ! LEFT_EAR) (frame ! RIGHT_EAR)))
      \<and> SLOUCH_ANGLE_THRESHOLD * DEVIATION_THRESHOLD_MULTIPLIER = 60
      \<and> (slouchAngle a < 40 \<or> 60 < \<bar>slouchAngle a - CalibrationBaseline.slouchAngle baseline\<bar>
           \<longrightarrow> type a = slouching
             \<and> confidence a =
                 min (95 / 100)
                   (6 / 10 + max (40 - slouchAngle a)
                               \<bar>slouchAngle a - CalibrationBaseline.slouchAngle baseline\<bar> / 10))"
proof -
  obtain eyeData s t al h y p det' where
    visible: "eyesVisible eyeData"
    and s: "s = fst (addToSmoothingBuffer (slouchAngles (smoothingBuffer det))
                (calculateSlouchAngle (frame ! LEFT_SHOULDER) (frame ! RIGHT_SHOULDER)
                   (frame ! LEFT_EAR) (frame ! RIGHT_EAR)))"
    and res: "analyzePosture det frame =
         (Inr \<lparr>type = fst (determinePostureIssue eyeData (calibrationBaseline det) s t al h y p),
               confidence = snd (determinePostureIssue eyeData (calibrationBaseline det) s t al h y p),
               slouchAngle = s, headTiltAngle = t, shoulderAlignment = al,
               headYaw = y, headPitch = p\<rparr>, det')"
    using analyzePosture_visible [OF len gate, of det] eyes by blast
  show ?thesis
    unfolding res base determinePostureIssue_baseline [OF visible]
    using s by (simp add: posture_thresholds)
qed

text \<open>
  Witness: the level frame (slouch angle 0) in the calibrated example detector, whose
  slouch buffer holds 45 and whose baseline slouch angle is 45. The smoothed angle is
  22.5, below 40: \<^verbatim>\<open>slouching\<close> with confidence 0.95.
\<close>

theorem baseline_slouching_first_witness:
  "length (exampleFrame (Some 1) (Some 1) 0 0) = 33
   \<and> 6 / 10 < visibilityOr0 (exampleFrame (Some 1) (Some 1) 0 0 ! NOSE)
   \<and> 6 / 10 < visibilityOr0 (exampleFrame (Some 1) (Some 1) 0 0 ! LEFT_SHOULDER)
   \<and> 6 / 10 < visibilityOr0 (exampleFrame (Some 1) (Some 1) 0 0 ! RIGHT_SHOULDER)
   \<and> 6 / 10 < visibilityOr0 (exampleFrame (Some 1) (Some 1) 0 0 ! LEFT_EAR)
   \<and> 6 / 10 < visibilityOr0 (exampleFrame (Some 1) (Some 1) 0 0 ! RIGHT_EAR)
   \<and> 6 / 10 < visibilityOr0 (exampleFrame (Some 1) (Some 1) 0 0 ! LEFT_EYE)
   \<and> 6 / 10 < visibilityOr0 (exampleFrame (Some 1) (Some 1) 0 0 ! RIGHT_EYE)
   \<and> map_option CalibrationBaseline.slouchAngle (calibrationBaseline exampleCalibratedDetector)
        = Some 45
   \<and> (\<exists>a det'. analyzePosture exampleCalibratedDetector (exampleFrame (Some 1) (Some 1) 0 0)
           = (Inr a, det')
         \<and> slouchAngle a = 45 / 2 \<and> type a = slouching \<and> confidence a = 95 / 100)"
proof -
  let ?f = "exampleFrame (Some 1) (Some 1) 0 0"
  let ?b = "\<lparr>CalibrationBaseline.slouchAngle = 45, CalibrationBaseline.headTiltAngle = 0,
             CalibrationBaseline.shoulderAlignment = 0,
             CalibrationBaseline.shoulderHeight = 1 / 100,
             CalibrationBaseline.headYaw = 0, CalibrationBaseline.headPitch = 0,
             CalibrationBaseline.timestamp = 1000\<rparr>"
  have hyps: "6 / 10 < visibilityOr0 (?f ! NOSE)"
    "6 / 10 < visibilityOr0 (?f ! LEFT_SHOULDER)"
    "6 / 10 < visibilityOr0 (?f ! RIGHT_SHOULDER)"
    "6 / 10 < visibilityOr0 (?f ! LEFT_EAR)"
    "6 / 10 < visibilityOr0 (?f ! RIGHT_EAR)"
    "6 / 10 < visibilityOr0 (?f ! LEFT_EYE)"
    "6 / 10 < visibilityOr0 (?f ! RIGHT_EYE)"
    by (simp_all add: exampleFrame_nth visibilityOr0_exampleLandmark)
  have base: "calibrationBaseline exampleCalibratedDetector = Some ?b"
    by (simp add: exampleCalibratedDetector_def)
  from baseline_slouching_first [OF length_exampleFrame hyps base]
  obtain a det' where res: "analyzePosture exampleCalibratedDetector ?f = (Inr a, det')"
    and s: "slouchAngle a =
          fst (addToSmoothingBuffer (slouchAngles (smoothingBuffer exampleCalibratedDetector))
                (calculateSlouchAngle (?f ! LEFT_SHOULDER) (?f ! RIGHT_SHOULDER)
                   (?f ! LEFT_EAR) (?f ! RIGHT_EAR)))"
    and rule: "slouchAngle a < 40 \<or> 60 < \<bar>slouchAngle a - CalibrationBaseline.slouchAngle ?b\<bar>
           \<longrightarrow> type a = slouching
             \<and> confidence a =
                 min (95 / 100)
                   (6 / 10 + max (40 - slouchAngle a)
                               \<bar>slouchAngle a - CalibrationBaseline.slouchAngle ?b\<bar> / 10)"
    by blast
  from s have s': "slouchAngle a = 45 / 2"
    by (simp add: exampleFrame_nth example_eval exampleCalibratedDetector_def
        exampleWarmDetector_def)
  with rule have "type a = slouching" "confidence a = 95 / 100"
    by simp_all
  with res s' hyps base show ?thesis
    by (simp add: length_exampleFrame)
qed

subsection \<open>Without a baseline\<close>

text \<open>
  Two readings of C4 as stated fail on the code. First, the chain sees the smoothed
  angles, not the frame's own: on the warm example detector (no baseline, buffers holding
  an upright frame) a frame whose craniovertebral angle is 35 degrees is smoothed to 40
  and judged \<^verbatim>\<open>good-posture\<close>, and a frame with yaw 50 degrees is smoothed to 25
  and judged \<^verbatim>\<open>good-posture\<close>. Second, the confidence of
  \<^verbatim>\<open>looking-away\<close> is not rule c's formula with the fixed threshold in the place
  of the baseline value: at yaw 50 that formula gives
  \<open>min 0.95 (0.6 + |50 - 30| / 60) = 14/15\<close>, the code gives 0.95.
\<close>

theorem fallback_warm_buffer_counterexample:
  "calibrationBaseline exampleWarmDetector = None
   \<and> calculateSlouchAngle
        (exampleFrame (Some 1) (Some 1) 0 (tan (7 * pi / 36) / 100) ! LEFT_SHOULDER)
        (exampleFrame (Some 1) (Some 1) 0 (tan (7 * pi / 36) / 100) ! RIGHT_SHOULDER)
        (exampleFrame (Some 1) (Some 1) 0 (tan (7 * pi / 36) / 100) ! LEFT_EAR)
        (exampleFrame (Some 1) (Some 1) 0 (tan (7 * pi / 36) / 100) ! RIGHT_EAR) = 35
   \<and> fst (analyzePosture exampleWarmDetector
            (exampleFrame (Some 1) (Some 1) 0 (tan (7 * pi / 36) / 100))) =
       Inr \<lparr>type = good_posture, confidence = 9 / 10, slouchAngle = 40, headTiltAngle = 0,
            shoulderAlignment = 0, headYaw = 0, headPitch = 0\<rparr>
   \<and> calculateHeadOrientation
        (exampleFrame (Some 1) (Some 1) (tan (5 * pi / 18) / 100) (1 / 100)) =
       Inr \<lparr>yaw = 50, pitch = 0\<rparr>
   \<and> fst (analyzePosture exampleWarmDetector
            (exampleFrame (Some 1) (Some 1) (tan (5 * pi / 18) / 100) (1 / 100))) =
       Inr \<lparr>type = good_posture, confidence = 9 / 10, slouchAngle = 45, headTiltAngle = 0,
            shoulderAlignment = 0, headYaw = 25, headPitch = 0\<rparr>
   \<and> calibrationBaseline newDetector = None
   \<and> fst (analyzePosture newDetector
            (exampleFrame (Some 1) (Some 1) (tan (5 * pi / 18) / 100) (1 / 100))) =
       Inr \<lparr>type = looking_away, confidence = 95 / 100, slouchAngle = 45, headTiltAngle = 0,
            shoulderAlignment = 0, headYaw = 50, headPitch = 0\<rparr>
   \<and> min (95 / 100) (6 / 10 + \<bar>50 - HEAD_TURN_THRESHOLD\<bar> / 60) = 14 / 15"
proof (intro conjI)
  show "calibrationBaseline exampleWarmDetector = None"
    by (simp add: exampleWarmDetector_def newDetector_def)
  show "calibrationBaseline newDetector = None"
    by (simp add: newDetector_def)
  show "calculateSlouchAngle
        (exampleFrame (Some 1) (Some 1) 0 (tan (7 * pi / 36) / 100) ! LEFT_SHOULDER)
        (exampleFrame (Some 1) (Some 1) 0 (tan (7 * pi / 36) / 100) ! RIGHT_SHOULDER)
        (exampleFrame (Some 1) (Some 1) 0 (tan (7 * pi / 36) / 100) ! LEFT_EAR)
        (exampleFrame (Some 1) (Some 1) 0 (tan (7 * pi / 36) / 100) ! RIGHT_EAR) = 35"
    by (simp add: exampleFrame_nth example_slouch example_angle_35)
  show "fst (analyzePosture exampleWarmDetector
            (exampleFrame (Some 1) (Some 1) 0 (tan (7 * pi / 36) / 100))) =
       Inr \<lparr>type = good_posture, confidence = 9 / 10, slouchAngle = 40, headTiltAngle = 0,
            shoulderAlignment = 0, headYaw = 0, headPitch = 0\<rparr>"
    by (simp add: analyzePosture_def example_eval exampleWarmDetector_def newDetector_def
        example_angle_35)
  show "calculateHeadOrientation
        (exampleFrame (Some 1) (Some 1) (tan (5 * pi / 18) / 100) (1 / 100)) =
       Inr \<lparr>yaw = 50, pitch = 0\<rparr>"
    by (simp add: example_orientation example_angle_50)
  show "fst (analyzePosture exampleWarmDetector
            (exampleFrame (Some 1) (Some 1) (tan (5 * pi / 18) / 100) (1 / 100))) =
       Inr \<lparr>type = good_posture, confidence = 9 / 10, slouchAngle = 45, headTiltAngle = 0,
            shoulderAlignment = 0, headYaw = 25, headPitch = 0\<rparr>"
    by (simp add: analyzePosture_def example_eval exampleWarmDetector_def newDetector_def
        example_angle_50)
  show "fst (analyzePosture newDetector
            (exampleFrame (Some 1) (Some 1) (tan (5 * pi / 18) / 100) (1 / 100))) =
       Inr \<lparr>type = looking_away, confidence = 95 / 100, slouchAngle = 45, headTiltAngle = 0,
            shoulderAlignment = 0, headYaw = 50, headPitch = 0\<rparr>"
    by (simp add: analyzePosture_def example_eval newDetector_def emptySmoothingBuffer_def
        example_angle_50)
  show "min (95 / 100) (6 / 10 + \<bar>50 - HEAD_TURN_THRESHOLD\<bar> / 60) = (14 / 15 :: real)"
    by (simp add: HEAD_TURN_THRESHOLD_def)
qed

text \<open>
  C4, amended. With both eyes visible and no baseline, the five smoothed angles of the
  frame (the means returned by the pushes, the head tilt computed by the eye-based
  calculator) are tested against the fixed thresholds in the order of rules a, c and d of
  the baseline branch: slouch angle below 40 gives \<^verbatim>\<open>slouching\<close> with confidence
  \<open>min 0.95 (0.6 + (40 - slouchAngle) / 10)\<close>; else absolute yaw above 30 gives
  \<^verbatim>\<open>looking-away\<close> with confidence \<open>min 0.95 (0.6 + |headYaw| / 60)\<close>; else head
  tilt above 20 gives \<^verbatim>\<open>looking-down\<close> with confidence
  \<open>min 0.95 (0.6 + headTiltAngle / 40)\<close>; else \<^verbatim>\<open>good-posture\<close> with confidence
  0.9. In particular a smoothed slouch angle of 35 gives \<^verbatim>\<open>slouching\<close> with
  confidence at least 0.6, and a smoothed yaw of 50 with a smoothed slouch angle of at
  least 40 gives \<^verbatim>\<open>looking-away\<close>. When the smoothing buffers are empty the
  smoothed angles are the frame's own, so that a frame placing the craniovertebral angle
  at 35 degrees is \<^verbatim>\<open>slouching\<close> with confidence at least 0.6, and a frame with
  yaw 50 degrees and craniovertebral angle at least 40 is \<^verbatim>\<open>looking-away\<close>.
\<close>

theorem fallback_fixed_thresholds:
  assumes len: "length frame = 33"
    and gate: "6 / 10 < visibilityOr0 (frame ! NOSE)"
      "6 / 10 < visibilityOr0 (frame ! LEFT_SHOULDER)"
      "6 / 10 < visibilityOr0 (frame ! RIGHT_SHOULDER)"
      "6 / 10 < visibilityOr0 (frame ! LEFT_EAR)"
      "6 / 10 < visibilityOr0 (frame ! RIGHT_EAR)"
    and eyes: "6 / 10 < visibilityOr0 (frame ! LEFT_EYE)"
      "6 / 10 < visibilityOr0 (frame ! RIGHT_EYE)"
    and base: "calibrationBaseline det = None"
  shows "\<exists>a det' orientation. analyzePosture det frame = (Inr a, det')
      \<and> calculateHeadOrientation frame = Inr orientation
      \<and> slouchAngle a =
          fst (addToSmoothingBuffer (slouchAngles (smoothingBuffer det))
                (calculateSlouchAngle (frame ! LEFT_SHOULDER) (frame ! RIGHT_SHOULDER)
                   (frame ! LEFT_EAR) (frame ! RIGHT_EAR)))
      \<and> headTiltAngle a =
          fst (addToSmoothingBuffer (headTiltAngles (smoothingBuffer det))
                (calculateSagittalHeadTilt (frame ! LEFT_EYE) (frame ! RIGHT_EYE)
                   (frame ! LEFT_EAR) (frame ! RIGHT_EAR)))
      \<and> shoulderAlignment a =
          fst (addToSmoothingBuffer (shoulderAlignments (smoothingBuffer det))
                (calculateShoulderAlignment (frame ! LEFT_SHOULDER) (frame ! RIGHT_SHOULDER)))
      \<and> headYaw a =
          fst (addToSmoothingBuffer (headYaws (smoothingBuffer det)) (yaw orientation))
      \<and> headPitch a =
          fst (addToSmoothingBuffer (headPitches (smoothingBuffer det)) (pitch orientation))
      \<and> (type a, confidence a) =
          (if slouchAngle a < 40 then
             (slouching, min (95 / 100) (6 / 10 + (40 - slouchAngle a) / 10))
           else if 30 < \<bar>headYaw a\<bar> then
             (looking_away, min (95 / 100) (6 / 10 + \<bar>headYaw a\<bar> / 60))
           else if 20 < headTiltAngle a then
             (looking_down, min (95 / 100) (6 / 10 + headTiltAngle a / 40))
           else (good_posture, 9 / 10))
      \<and> (slouchAngle a = 35 \<longrightarrow> type a = slouching \<and> 6 / 10 \<le> confidence a)
      \<and> (headYaw a = 50 \<and> 40 \<le> slouchAngle a \<longrightarrow> type a = looking_away)
      \<and> (smoothingBuffer det = emptySmoothingBuffer \<longrightarrow>
            slouchAngle a =
              calculateSlouchAngle (frame ! LEFT_SHOULDER) (frame ! RIGHT_SHOULDER)
                (frame ! LEFT_EAR) (frame ! RIGHT_EAR)
            \<and> headYaw a = yaw orientation)
      \<and> (smoothingBuffer det = emptySmoothingBuffer
           \<and> calculateSlouchAngle (frame ! LEFT_SHOULDER) (frame ! RIGHT_SHOULDER)
                (frame ! LEFT_EAR) (frame ! RIGHT_EAR) = 35
           \<longrightarrow> type a = slouching \<and> 6 / 10 \<le> confidence a)
      \<and> (smoothingBuffer det = emptySmoothingBuffer
           \<and> yaw orientation = 50
           \<and> 40 \<le> calculateSlouchAngle (frame ! LEFT_SHOULDER) (frame ! RIGHT_SHOULDER)
                       (frame ! LEFT_EAR) (frame ! RIGHT_EAR)
           \<longrightarrow> type a = looking_away)"
proof -
  obtain eyeData orientation s t al h y p det' where
    visible: "eyesVisible eyeData"
    and ori: "calculateHeadOrientation frame = Inr orientation"
    and s: "s = fst (addToSmoothingBuffer (slouchAngles (smoothingBuffer det))
                (calculateSlouchAngle (frame ! LEFT_SHOULDER) (frame ! RIGHT_SHOULDER)
                   (frame ! LEFT_EAR) (frame ! RIGHT_EAR)))"
    and t: "t = fst (addToSmoothingBuffer (headTiltAngles (smoothingBuffer det))
                (if eyesVisible eyeData
                 then calculateSagittalHeadTilt (frame ! LEFT_EYE) (frame ! RIGHT_EYE)
                        (frame ! LEFT_EAR) (frame ! RIGHT_EAR)
                 else calculateHeadTilt (frame ! NOSE) (frame ! LEFT_SHOULDER)
                        (frame ! RIGHT_SHOULDER)))"
    and al: "al = fst (addToSmoothingBuffer (shoulderAlignments (smoothingBuffer det))
                (calculateShoulderAlignment (frame ! LEFT_SHOULDER) (frame ! RIGHT_SHOULDER)))"
    and y: "y = fst (addToSmoothingBuffer (headYaws (smoothingBuffer det)) (yaw orientation))"
    and p: "p = fst (addToSmoothingBuffer (headPitches (smoothingBuffer det)) (pitch orientation))"
    and res: "analyzePosture det frame =
         (Inr \<lparr>type = fst (determinePostureIssue eyeData (calibrationBaseline det) s t al h y p),
               confidence = snd (determinePostureIssue eyeData (calibrationBaseline det) s t al h y p),
               slouchAngle = s, headTiltAngle = t, shoulderAlignment = al,
               headYaw = y, headPitch = p\<rparr>, det')"
    using analyzePosture_visible [OF len gate, of det] eyes by blast
  from visible t have t': "t = fst (addToSmoothingBuffer (headTiltAngles (smoothingBuffer det))
                (calculateSagittalHeadTilt (frame ! LEFT_EYE) (frame ! RIGHT_EYE)
                   (frame ! LEFT_EAR) (frame ! RIGHT_EAR)))"
    by simp
  have fresh: "smoothingBuffer det = emptySmoothingBuffer \<longrightarrow>
      s = calculateSlouchAngle (frame ! LEFT_SHOULDER) (frame ! RIGHT_SHOULDER)
            (frame ! LEFT_EAR) (frame ! RIGHT_EAR)
      \<and> y = yaw orientation"
    by (simp add: s y emptySmoothingBuffer_def addToSmoothingBuffer_empty)
  have chain: "determinePostureIssue eyeData None s t al h y p =
     (if s < 40 then (slouching, min (95 / 100) (6 / 10 + (40 - s) / 10))
      else if 30 < \<bar>y\<bar> then (looking_away, min (95 / 100) (6 / 10 + \<bar>y\<bar> / 60))
      else if 20 < t then (looking_down, min (95 / 100) (6 / 10 + t / 40))
      else (good_posture, 9 / 10))"
    by (rule determinePostureIssue_fallback [OF visible])
  have at35: "s = 35 \<longrightarrow>
      fst (determinePostureIssue eyeData None s t al h y p) = slouching
      \<and> 6 / 10 \<le> snd (determinePostureIssue eyeData None s t al h y p)"
    unfolding chain by (simp add: min_def)
  have at50: "y = 50 \<and> 40 \<le> s \<longrightarrow>
      fst (determinePostureIssue eyeData None s t al h y p) = looking_away"
    unfolding chain by simp
  have fields: "analyzePosture det frame =
         (Inr \<lparr>type = fst (determinePostureIssue eyeData None s t al h y p),
               confidence = snd (determinePostureIssue eyeData None s t al h y p),
               slouchAngle = s, headTiltAngle = t, shoulderAlignment = al,
               headYaw = y, headPitch = p\<rparr>, det')"
    using res base by simp
  have "(fst (determinePostureIssue eyeData None s t al h y p),
         snd (determinePostureIssue eyeData None s t al h y p)) =
     (if s < 40 then (slouching, min (95 / 100) (6 / 10 + (40 - s) / 10))
      else if 30 < \<bar>y\<bar> then (looking_away, min (95 / 100) (6 / 10 + \<bar>y\<bar> / 60))
      else if 20 < t then (looking_down, min (95 / 100) (6 / 10 + t / 40))
      else (good_posture, 9 / 10))"
    using chain by simp
  with fields ori fresh at35 at50 s [symmetric] t' [symmetric] al [symmetric]
    y [symmetric] p [symmetric]
  show ?thesis
    by (intro exI [of _ "\<lparr>type = fst (determinePostureIssue eyeData None s t al h y p),
               confidence = snd (determinePostureIssue eyeData None s t al h y p),
               slouchAngle = s, headTiltAngle = t, shoulderAlignment = al,
               headYaw = y, headPitch = p\<rparr>"] exI [of _ det'] exI [of _ orientation])
       (simp only: PostureAnalysis.simps simp_thms, blast)
qed

text \<open>
  Witness, on a new detector: a frame whose craniovertebral angle is 35 degrees is
  \<^verbatim>\<open>slouching\<close> (confidence 0.95), and a frame with yaw 50 degrees and
  craniovertebral angle 45 degrees is \<^verbatim>\<open>looking-away\<close>.
\<close>

theorem fallback_fixed_thresholds_witness:
  "length (exampleFrame (Some 1) (Some 1) 0 (tan (7 * pi / 36) / 100)) = 33
   \<and> calibrationBaseline newDetector = None
   \<and> (\<exists>a det'. analyzePosture newDetector
                   (exampleFrame (Some 1) (Some 1) 0 (tan (7 * pi / 36) / 100)) = (Inr a, det')
         \<and> slouchAngle a = 35 \<and> type a = slouching \<and> confidence a = 95 / 100)
   \<and> (\<exists>a det'. analyzePosture newDetector
                   (exampleFrame (Some 1) (Some 1) (tan (10 * pi / 36) / 100) (1 / 100))
                   = (Inr a, det')
         \<and> slouchAngle a = 45 \<and> headYaw a = 50 \<and> type a = looking_away
         \<and> confidence a = 95 / 100)"
proof -
  let ?f = "exampleFrame (Some 1) (Some 1) 0 (tan (7 * pi / 36) / 100)"
  let ?g = "exampleFrame (Some 1) (Some 1) (tan (10 * pi / 36) / 100) (1 / 100)"
  have base: "calibrationBaseline newDetector = None"
    and fresh: "smoothingBuffer newDetector = emptySmoothingBuffer"
    by (simp_all add: newDetector_def)
  have vis: "6 / 10 < visibilityOr0 (exampleFrame (Some 1) (Some 1) fx sy ! NOSE)"
    "6 / 10 < visibilityOr0 (exampleFrame (Some 1) (Some 1) fx sy ! LEFT_SHOULDER)"
    "6 / 10 < visibilityOr0 (exampleFrame (Some 1) (Some 1) fx sy ! RIGHT_SHOULDER)"
    "6 / 10 < visibilityOr0 (exampleFrame (Some 1) (Some 1) fx sy ! LEFT_EAR)"
    "6 / 10 < visibilityOr0 (exampleFrame (Some 1) (Some 1) fx sy ! RIGHT_EAR)"
    "6 / 10 < visibilityOr0 (exampleFrame (Some 1) (Some 1) fx sy ! LEFT_EYE)"
    "6 / 10 < visibilityOr0 (exampleFrame (Some 1) (Some 1) fx sy ! RIGHT_EYE)" for fx sy
    by (simp_all add: exampleFrame_nth visibilityOr0_exampleLandmark)
  have first: "\<exists>a det'. analyzePosture newDetector ?f = (Inr a, det')
         \<and> slouchAngle a = 35 \<and> type a = slouching \<and> confidence a = 95 / 100"
  proof -
    from fallback_fixed_thresholds [OF length_exampleFrame vis base]
    obtain a det' where res: "analyzePosture newDetector ?f = (Inr a, det')"
      and chain: "(type a, confidence a) =
          (if slouchAngle a < 40 then
             (slouching, min (95 / 100) (6 / 10 + (40 - slouchAngle a) / 10))
           else if 30 < \<bar>headYaw a\<bar> then
             (looking_away, min (95 / 100) (6 / 10 + \<bar>headYaw a\<bar> / 60))
           else if 20 < headTiltAngle a then
             (looking_down, min (95 / 100) (6 / 10 + headTiltAngle a / 40))
           else (good_posture, 9 / 10))"
      and s: "slouchAngle a =
              calculateSlouchAngle (?f ! LEFT_SHOULDER) (?f ! RIGHT_SHOULDER)
                (?f ! LEFT_EAR) (?f ! RIGHT_EAR)"
      using fresh by blast
    from s have "slouchAngle a = 35"
      using example_angle [of 7] by (simp add: exampleFrame_nth example_slouch)
    with chain res show ?thesis
      by simp
  qed
  have second: "\<exists>a det'. analyzePosture newDetector ?g = (Inr a, det')
         \<and> slouchAngle a = 45 \<and> headYaw a = 50 \<and> type a = looking_away
         \<and> confidence a = 95 / 100"
  proof -
    from fallback_fixed_thresholds [OF length_exampleFrame vis base]
    obtain a det' orientation where res: "analyzePosture newDetector ?g = (Inr a, det')"
      and ori: "calculateHeadOrientation ?g = Inr orientation"
      and chain: "(type a, confidence a) =
          (if slouchAngle a < 40 then
             (slouching, min (95 / 100) (6 / 10 + (40 - slouchAngle a) / 10))
           else if 30 < \<bar>headYaw a\<bar> then
             (looking_away, min (95 / 100) (6 / 10 + \<bar>headYaw a\<bar> / 60))
           else if 20 < headTiltAngle a then
             (looking_down, min (95 / 100) (6 / 10 + headTiltAngle a / 40))
           else (good_posture, 9 / 10))"
      and s: "slouchAngle a =
              calculateSlouchAngle (?g ! LEFT_SHOULDER) (?g ! RIGHT_SHOULDER)
                (?g ! LEFT_EAR) (?g ! RIGHT_EAR)"
      and y: "headYaw a = yaw orientation"
      using fresh by blast
    from s have s': "slouchAngle a = 45"
      by (simp add: exampleFrame_nth example_slouch degrees_simps arctan_one)
    from ori y have y': "headYaw a = 50"
      using example_angle [of 10] by (auto simp add: example_orientation)
    from chain s' y' res show ?thesis
      by simp
  qed
  from first second base show ?thesis
    by (simp add: length_exampleFrame)
qed

subsection \<open>The range of the confidence\<close>

text \<open>
  C10. For every frame, absent or of 33 landmarks, and every detector, the analysis
  returns, and its confidence lies between 0.6 and 0.95: the no-person result has 0.95,
  good posture has 0.9, the eyes-not-visible verdicts have 0.9 and every issue rule
  computes \<open>min 0.95 (0.6 + u)\<close> for some \<open>u\<close> that is not negative.
\<close>

theorem confidence_range:
  assumes wf: "case frameOpt of None \<Rightarrow> True | Some frame \<Rightarrow> length frame = 33"
  shows "\<exists>a det'. detectPose_posture det frameOpt = (Inr a, det')
      \<and> 6 / 10 \<le> confidence a \<and> confidence a \<le> 95 / 100
      \<and> (type a = no_person \<longrightarrow> confidence a = 95 / 100)
      \<and> (type a = good_posture \<longrightarrow> confidence a = 9 / 10)"
proof (cases frameOpt)
  case None
  then show ?thesis
    by (simp add: detectPose_posture_def createNoPersonAnalysis_def)
next
  case (Some frame)
  with wf have len: "length frame = 33" by simp
  show ?thesis
  proof (cases "6 / 10 < visibilityOr0 (frame ! NOSE)
      \<and> 6 / 10 < visibilityOr0 (frame ! LEFT_SHOULDER)
      \<and> 6 / 10 < visibilityOr0 (frame ! RIGHT_SHOULDER)
      \<and> 6 / 10 < visibilityOr0 (frame ! LEFT_EAR)
      \<and> 6 / 10 < visibilityOr0 (frame ! RIGHT_EAR)")
    case False
    from analyzePosture_hidden [OF len False] show ?thesis
      by (simp add: Some detectPose_posture_def createNoPersonAnalysis_def)
  next
    case True
    then obtain eyeData s t al h y p det' where
      "analyzePosture det frame =
         (Inr \<lparr>type = fst (determinePostureIssue eyeData (calibrationBaseline det) s t al h y p),
               confidence = snd (determinePostureIssue eyeData (calibrationBaseline det) s t al h y p),
               slouchAngle = s, headTiltAngle = t, shoulderAlignment = al,
               headYaw = y, headPitch = p\<rparr>, det')"
      using analyzePosture_visible [OF len, of det] by blast
    then show ?thesis
      using determinePostureIssue_confidence [of eyeData "calibrationBaseline det" s t al h y p]
        determinePostureIssue_type_confidence [of eyeData "calibrationBaseline det" s t al h y p]
      by (simp add: Some detectPose_posture_def)
  qed
qed

text \<open>
  Witness: a craniovertebral angle of 38 degrees on a new detector, and the absent frame.
\<close>

theorem confidence_range_witness:
  "(case Some (exampleFrame (Some 1) (Some 1) 0 (tan (38 / 5 * pi / 36) / 100)) of
      None \<Rightarrow> True | Some frame \<Rightarrow> length frame = 33)
   \<and> (\<exists>a det'. detectPose_posture newDetector
          (Some (exampleFrame (Some 1) (Some 1) 0 (tan (38 / 5 * pi / 36) / 100))) = (Inr a, det')
        \<and> 6 / 10 \<le> confidence a \<and> confidence a \<le> 95 / 100)
   \<and> (\<exists>a det'. detectPose_posture newDetector None = (Inr a, det')
        \<and> 6 / 10 \<le> confidence a \<and> confidence a \<le> 95 / 100)"
proof -
  let ?f = "exampleFrame (Some 1) (Some 1) 0 (tan (38 / 5 * pi / 36) / 100)"
  have wf: "case Some ?f of None \<Rightarrow> True | Some frame \<Rightarrow> length frame = 33"
    by (simp add: length_exampleFrame)
  from confidence_range [OF wf, of newDetector] confidence_range [of None newDetector] wf
  show ?thesis
    by (simp only: option.case simp_thms) blast
qed

section \<open>The change filter\<close>

text \<open>
  A first result on a hook that is not calibrated: no result was forwarded before, the
  type is new and 5000 ms have passed, yet \<^verbatim>\<open>runDetection\<close> does not call
  \<^verbatim>\<open>setResult\<close> and leaves the hook as it was (C9 as stated fails here). The
  detection loop starts before calibration, so every first result is of this kind.
\<close>

theorem uncalibrated_never_forwarded_counterexample:
  "lastUpdateRef (exampleHook False None 0) = None
   \<and> hasSignificantChange (examplePosture slouching 30) (lastUpdateRef (exampleHook False None 0))
   \<and> MAX_UPDATE_INTERVAL \<le> 5000 - lastUpdateTimeRef (exampleHook False None 0)
   \<and> runDetection (exampleHook False None 0) (examplePosture slouching 30) 5000
       = (False, exampleHook False None 0)"
  by (simp add: exampleHook_def runDetection_def hasSignificantChange_def MAX_UPDATE_INTERVAL_def)

text \<open>
  C9, amended. \<^verbatim>\<open>runDetection\<close> forwards a newly produced result to the consumer
  if and only if the hook is mounted with detector and video attached, the calibrated
  flag is set, and: no result was forwarded before, or the posture type differs from the
  last forwarded result, or one of the five angles (slouch, head tilt, shoulder
  alignment, yaw, pitch) changed by at least 2 degrees, or the confidence changed by at
  least 0.1, or at least 1000 ms passed since the last forwarded result. A forwarded
  result becomes the last forwarded one, with the time of the call; otherwise the hook is
  unchanged. While the calibrated flag is not set, nothing is forwarded.
\<close>

theorem change_filter_forwards:
  "fst (runDetection hook detectionResult now) =
     (detectorRef hook \<and> videoElementRef hook \<and> isMountedRef hook \<and> isCalibratedRef hook
      \<and> (case lastUpdateRef hook of
            None \<Rightarrow> True
          | Some previous \<Rightarrow>
              type (posture detectionResult) \<noteq> type (posture previous)
              \<or> 2 \<le> \<bar>slouchAngle (posture detectionResult) - slouchAngle (posture previous)\<bar>
              \<or> 2 \<le> \<bar>headTiltAngle (posture detectionResult) - headTiltAngle (posture previous)\<bar>
              \<or> 2 \<le> \<bar>shoulderAlignment (posture detectionResult)
                        - shoulderAlignment (posture previous)\<bar>
              \<or> 2 \<le> \<bar>headYaw (posture detectionResult) - headYaw (posture previous)\<bar>
              \<or> 2 \<le> \<bar>headPitch (posture detectionResult) - headPitch (posture previous)\<bar>
              \<or> 1 / 10 \<le> \<bar>confidence (posture detectionResult) - confidence (posture previous)\<bar>
              \<or> 1000 \<le> now - lastUpdateTimeRef hook))
   \<and> snd (runDetection hook detectionResult now) =
       (if fst (runDetection hook detectionResult now)
        then hook\<lparr>lastUpdateRef := Some detectionResult, lastUpdateTimeRef := now,
               result := Some detectionResult\<rparr>
        else hook)"
  by (auto simp add: runDetection_def hasSignificantChange_def Let_def
      ANGLE_CHANGE_THRESHOLD_def CONFIDENCE_CHANGE_THRESHOLD_def MAX_UPDATE_INTERVAL_def
      split: option.splits)

text \<open>
  Witness, on a calibrated hook whose last forwarded result is good posture with slouch
  angle 45 at time 4000: at time 4100 a change of type is forwarded, a change of the
  angle by 2 is forwarded, a change by 1 is not, and the same change is forwarded at time
  5000; a first result is forwarded; on a hook that is not calibrated nothing is.
\<close>

theorem change_filter_forwards_witness:
  "fst (runDetection (exampleHook True (Some (examplePosture good_posture 45)) 4000)
          (examplePosture slouching 30) 4100)
   \<and> fst (runDetection (exampleHook True (Some (examplePosture good_posture 45)) 4000)
          (examplePosture good_posture 47) 4100)
   \<and> \<not> fst (runDetection (exampleHook True (Some (examplePosture good_posture 45)) 4000)
          (examplePosture good_posture 46) 4100)
   \<and> fst (runDetection (exampleHook True (Some (examplePosture good_posture 45)) 4000)
          (examplePosture good_posture 46) 5000)
   \<and> fst (runDetection (exampleHook True None 4000) (examplePosture good_posture 46) 4100)
   \<and> \<not> fst (runDetection (exampleHook False None 0) (examplePosture slouching 30) 5000)"
  by (simp add: change_filter_forwards exampleHook_def examplePosture_def)

end
